theory Spec2Isabelle
  imports Complex_Main "HOL-Library.Monad_Syntax"
begin

section \<open>Vectors and the helpers of the OpenBabel library\<close>

text \<open>
  The code works on \<^verbatim>\<open>Eigen::Vector3d\<close>, three doubles. The model is over the real
  numbers: a coordinate is a \<^typ>\<open>real\<close>, so the rounding of doubles is not part of it, and
  the test \<^verbatim>\<open>isfinite(direction[c].squaredNorm())\<close> of the two line searches always
  succeeds. The square root, the logarithm and the quotient are those of the reals, which
  have a value where the double is NaN or an infinity (a negative argument, a zero
  divisor); the theorems below state nothing that rests on such a value.
\<close>

datatype Vector3d = Vec (vx: real) (vy: real) (vz: real)

fun vadd :: "Vector3d \<Rightarrow> Vector3d \<Rightarrow> Vector3d" where
  "vadd (Vec a b c) (Vec x y z) = Vec (a + x) (b + y) (c + z)"

fun vsub :: "Vector3d \<Rightarrow> Vector3d \<Rightarrow> Vector3d" where
  "vsub (Vec a b c) (Vec x y z) = Vec (a - x) (b - y) (c - z)"

fun smul :: "Vector3d \<Rightarrow> real \<Rightarrow> Vector3d" where
  "smul (Vec a b c) s = Vec (a * s) (b * s) (c * s)"

fun dot :: "Vector3d \<Rightarrow> Vector3d \<Rightarrow> real" where
  "dot (Vec a b c) (Vec x y z) = a * x + b * y + c * z"

fun cross :: "Vector3d \<Rightarrow> Vector3d \<Rightarrow> Vector3d" where
  "cross (Vec a b c) (Vec x y z) = Vec (b * z - c * y) (c * x - a * z) (a * y - b * x)"

definition squaredNorm :: "Vector3d \<Rightarrow> real" where
  "squaredNorm v = dot v v"

definition norm3 :: "Vector3d \<Rightarrow> real" where
  "norm3 v = sqrt (squaredNorm v)"

definition normalized :: "Vector3d \<Rightarrow> Vector3d" where
  \<comment> \<open>\<^verbatim>\<open>v.normalize()\<close>: the vector divided by its norm; only called on a vector whose
      squared norm is above \<^verbatim>\<open>trustRadius2\<close>, so the norm is not zero.\<close>
  "normalized v = smul v (1 / norm3 v)"

definition IsNear :: "real \<Rightarrow> real \<Rightarrow> real \<Rightarrow> bool" where
  \<comment> \<open>\<^verbatim>\<open>IsNear(a, b, epsilon)\<close> of openbabel/obutil.h, which the repository includes:
      \<^verbatim>\<open>fabs(a - b) < epsilon\<close>.\<close>
  "IsNear a b epsilon = (\<bar>a - b\<bar> < epsilon)"

definition IsNearZero :: "real \<Rightarrow> real \<Rightarrow> bool" where
  \<comment> \<open>\<^verbatim>\<open>IsNearZero(a, epsilon)\<close> of openbabel/obutil.h: \<^verbatim>\<open>fabs(a) < epsilon\<close>; the
      default \<^verbatim>\<open>epsilon\<close> is \<^verbatim>\<open>2e-6\<close>.\<close>
  "IsNearZero a epsilon = (\<bar>a\<bar> < epsilon)"

definition IsNearZero_default :: "real \<Rightarrow> bool" where
  "IsNearZero_default a = IsNearZero a (2 / 1000000)"

datatype error = IndexOutOfRange

section \<open>obminimize.cpp: the two line searches\<close>

text \<open>
  \<^verbatim>\<open>m_function->Compute(OBFunction::Value); m_function->GetValue()\<close> evaluates the energy
  of the positions the function owns. The energy function is a parameter \<open>E\<close> of the
  model. Both callers pass \<^verbatim>\<open>m_function->GetPositions()\<close> as \<^verbatim>\<open>currentCoords\<close>, so
  the array the search moves is the array the energy is computed from.
\<close>

definition trustRadius :: real where
  "trustRadius = 3 / 10"

definition trustRadius2 :: real where
  "trustRadius2 = 9 / 10"

definition tempStep :: "Vector3d \<Rightarrow> real \<Rightarrow> Vector3d" where
  \<comment> \<open>the displacement added to one atom in one trial of \<^verbatim>\<open>LineSearch\<close>\<close>
  "tempStep d step =
     (let t = smul d step
      in if squaredNorm t > trustRadius2 then smul (normalized t) trustRadius else t)"

definition LineSearch_move :: "Vector3d list \<Rightarrow> Vector3d list \<Rightarrow> real \<Rightarrow> Vector3d list" where
  \<comment> \<open>the inner loop over \<^verbatim>\<open>c < currentCoords.size()\<close>; the direction array is at least as
      long (checked in \<open>LineSearch\<close>)\<close>
  "LineSearch_move currentCoords direction step =
     map2 (\<lambda>p d. vadd p (tempStep d step)) currentCoords direction"

fun LineSearch_loop ::
  "(Vector3d list \<Rightarrow> real) \<Rightarrow> Vector3d list \<Rightarrow> nat \<Rightarrow> Vector3d list \<Rightarrow> real \<Rightarrow> real \<Rightarrow> real
     \<Rightarrow> Vector3d list \<times> real" where
  \<comment> \<open>the \<^verbatim>\<open>for (i=0; i < 10; ++i)\<close> loop; the third argument is the number of trials left\<close>
  "LineSearch_loop E direction 0 currentCoords e_n1 step alpha = (currentCoords, alpha)"
| "LineSearch_loop E direction (Suc k) currentCoords e_n1 step alpha =
     (let lastStep = currentCoords;
          moved = LineSearch_move currentCoords direction step;
          e_n2 = E moved
      in if IsNear e_n2 e_n1 (1 / 1000) then (moved, alpha)
         else if e_n2 > e_n1 then
           LineSearch_loop E direction k lastStep e_n1 (step * (1 / 10)) alpha
         else if e_n2 < e_n1 then
           LineSearch_loop E direction k moved e_n2
             (if step * (215 / 100) > 1 then 1 else step * (215 / 100)) (alpha + step)
         else LineSearch_loop E direction k moved e_n1 step alpha)"

definition LineSearch ::
  "(Vector3d list \<Rightarrow> real) \<Rightarrow> Vector3d list \<Rightarrow> Vector3d list \<Rightarrow> error + Vector3d list \<times> real" where
  \<comment> \<open>returns the positions left behind and \<^verbatim>\<open>alpha\<close>; \<^verbatim>\<open>direction[c]\<close> past the end of
      the direction array is undefined in C++ and is the error of the model\<close>
  "LineSearch E currentCoords direction =
     (if length direction < length currentCoords then Inl IndexOutOfRange
      else Inr (LineSearch_loop E direction 10 currentCoords (E currentCoords) (2 / 10) 0))"

definition LineSearchTakeStep :: "Vector3d list \<Rightarrow> Vector3d list \<Rightarrow> real \<Rightarrow> Vector3d list" where
  \<comment> \<open>writes \<^verbatim>\<open>origCoords[c] + direction[c] * step\<close> for \<^verbatim>\<open>c < direction.size()\<close>; the
      positions past the direction array keep the value they had, which is the origin\<close>
  "LineSearchTakeStep origCoords direction step =
     map2 (\<lambda>p d. vadd p (smul d step)) origCoords direction @ drop (length direction) origCoords"

function Newton_loop ::
  "(Vector3d list \<Rightarrow> real) \<Rightarrow> Vector3d list \<Rightarrow> Vector3d list \<Rightarrow> real \<Rightarrow> nat \<Rightarrow> real \<Rightarrow> real \<Rightarrow> real
     \<Rightarrow> real \<times> real" where
  \<comment> \<open>the \<^verbatim>\<open>while (true)\<close> loop; returns \<^verbatim>\<open>opt_step\<close> and \<^verbatim>\<open>opt_e\<close>\<close>
  "Newton_loop E origCoords direction max_scl newton step opt_step opt_e =
     (let e_n1 = E (LineSearchTakeStep origCoords direction step);
          opt_step' = (if e_n1 < opt_e then step else opt_step);
          opt_e' = (if e_n1 < opt_e then e_n1 else opt_e);
          delta = step * (1 / 1000);
          e_n2 = E (LineSearchTakeStep origCoords direction (step + delta));
          e_n3 = E (LineSearchTakeStep origCoords direction (step + delta * 2));
          denom = e_n3 - 2 * e_n2 + e_n1;
          newstep = \<bar>step - delta * (e_n2 - e_n1) / denom\<bar>
      in if newton > 3 then (opt_step', opt_e')
         else if denom \<noteq> 0 then
           Newton_loop E origCoords direction max_scl (newton + 1)
             (if newstep > max_scl then max_scl else newstep) opt_step' opt_e'
         else (opt_step', opt_e'))"
  by pat_completeness auto
termination
  by (relation "measure (\<lambda>(E, origCoords, direction, max_scl, newton, step, opt_step, opt_e). 4 - newton)")
     auto

declare Newton_loop.simps [simp del]

definition Newton2NumLineSearch ::
  "(Vector3d list \<Rightarrow> real) \<Rightarrow> real \<Rightarrow> Vector3d list \<Rightarrow> Vector3d list \<Rightarrow> error + Vector3d list \<times> real" where
  \<comment> \<open>the second argument is the stored energy \<^verbatim>\<open>d->e_n1\<close>, the third the positions of
      the function; returns the positions left behind and \<^verbatim>\<open>opt_step * scale\<close>\<close>
  "Newton2NumLineSearch E d_e_n1 positions direction =
     (if length positions < length direction then Inl IndexOutOfRange
      else
        let def_step = 25 / 1000;
            max_step = 5;
            sum = sum_list (map squaredNorm direction);
            scale = (if IsNearZero_default (sqrt sum) then 1 / 10 ^ 70 else sqrt sum);
            step = def_step / scale;
            max_scl = max_step / scale;
            origCoords = positions;
            (opt_step, opt_e) = Newton_loop E origCoords direction max_scl 0 step 0 d_e_n1;
            small = (1 / 1000) * def_step / scale;
            e_small = E (LineSearchTakeStep origCoords direction small);
            opt_step' = (if opt_step = 0 \<and> e_small < opt_e then small else opt_step)
        in Inr (LineSearchTakeStep origCoords direction opt_step', opt_step' * scale))"

section \<open>The UFF force field: data\<close>

text \<open>
  Atoms are named by their index \<^verbatim>\<open>GetIdx()\<close>, which starts at 1: the atom at position
  \<open>i\<close> of \<open>atoms\<close> has index \<open>i + 1\<close>. Where the code holds an \<^verbatim>\<open>OBAtom*\<close>, the model
  holds that index. The molecule class and its iterators belong to the OpenBabel library:
  \<open>angles\<close>, \<open>torsions\<close> and \<open>pairs\<close> are what \<^verbatim>\<open>FOR_ANGLES_OF_MOL\<close>,
  \<^verbatim>\<open>FOR_TORSIONS_OF_MOL\<close> and \<^verbatim>\<open>FOR_PAIRS_OF_MOL\<close> enumerate, and are input of the
  model. A computation that dereferences a null pointer has no result (\<open>None\<close>). The
  iterators of the library yield indices of atoms of the molecule; where an index names no
  atom, the model has no result as soon as the atom is fetched.
\<close>

record OBAtom =
  Type :: string
  AtomicNum :: nat
  PartialCharge :: real

record OBBond =
  BeginAtom :: nat
  EndAtom :: nat
  BondOrder :: nat
  IsAromatic :: bool
  IsAmide :: bool

record OBMol =
  atoms :: "OBAtom list"
  bonds :: "OBBond list"
  angles :: "(nat \<times> nat \<times> nat) list"
  torsions :: "(nat \<times> nat \<times> nat \<times> nat) list"
  pairs :: "(nat \<times> nat) list"

definition GetAtom :: "OBMol \<Rightarrow> nat \<Rightarrow> OBAtom option" where
  \<comment> \<open>\<^verbatim>\<open>mol->GetAtom(idx)\<close>: null when no atom has that index\<close>
  "GetAtom mol idx =
     (if 1 \<le> idx \<and> idx \<le> length (atoms mol) then Some (atoms mol ! (idx - 1)) else None)"

definition GetNbrAtom :: "OBBond \<Rightarrow> nat \<Rightarrow> nat" where
  "GetNbrAtom bd a = (if BeginAtom bd = a then EndAtom bd else BeginAtom bd)"

definition bonds_of :: "OBMol \<Rightarrow> nat \<Rightarrow> OBBond list" where
  \<comment> \<open>the bonds an atom iterates with \<^verbatim>\<open>BeginBond\<close>/\<^verbatim>\<open>NextBond\<close>\<close>
  "bonds_of mol a = filter (\<lambda>bd. BeginAtom bd = a \<or> EndAtom bd = a) (bonds mol)"

definition nbors :: "OBMol \<Rightarrow> nat \<Rightarrow> nat list" where
  \<comment> \<open>\<^verbatim>\<open>FOR_NBORS_OF_ATOM\<close>\<close>
  "nbors mol a = map (\<lambda>bd. GetNbrAtom bd a) (bonds_of mol a)"

definition IsConnected :: "OBMol \<Rightarrow> nat \<Rightarrow> nat \<Rightarrow> bool" where
  \<comment> \<open>\<^verbatim>\<open>a->IsConnected(b)\<close>: some bond of \<open>a\<close> begins or ends at \<open>b\<close>\<close>
  "IsConnected mol a b = list_ex (\<lambda>bd. BeginAtom bd = b \<or> EndAtom bd = b) (bonds_of mol a)"

definition IsOneThree :: "OBMol \<Rightarrow> nat \<Rightarrow> nat \<Rightarrow> bool" where
  \<comment> \<open>\<^verbatim>\<open>a->IsOneThree(b)\<close>: a bond of \<open>a\<close> and a bond of \<open>b\<close> lead to the same atom\<close>
  "IsOneThree mol a b =
     list_ex (\<lambda>bond1. list_ex (\<lambda>bond2. GetNbrAtom bond1 a = GetNbrAtom bond2 b) (bonds_of mol b))
       (bonds_of mol a)"

definition GetBond :: "OBMol \<Rightarrow> nat \<Rightarrow> nat \<Rightarrow> OBBond option" where
  \<comment> \<open>\<^verbatim>\<open>mol->GetBond(a, b)\<close>: null when the two atoms share no bond\<close>
  "GetBond mol a b = find (\<lambda>bd. GetNbrAtom bd a = b) (bonds_of mol a)"

definition bonded :: "OBMol \<Rightarrow> nat \<Rightarrow> nat \<Rightarrow> bool" where
  \<comment> \<open>the 1-2 pairs of the specification: a bond of the molecule joins the two atoms\<close>
  "bonded mol a b = (\<exists>bd \<in> set (bonds mol). {BeginAtom bd, EndAtom bd} = {a, b})"

definition one_three :: "OBMol \<Rightarrow> nat \<Rightarrow> nat \<Rightarrow> bool" where
  \<comment> \<open>the 1-3 pairs of the specification: both atoms are bonded to a common vertex\<close>
  "one_three mol a b = (\<exists>v. bonded mol a v \<and> bonded mol v b)"

record OBFFParameter =
  par_a :: string
  dpar0 :: real
  dpar1 :: real
  dpar2 :: real
  dpar3 :: real
  dpar4 :: real
  dpar5 :: real
  dpar6 :: real
  dpar7 :: real
  dpar8 :: real
  dpar9 :: real
  dpar10 :: real
  ipar0 :: int

text \<open>
  \<^verbatim>\<open>ParseParamFile\<close> is the only writer of the table and gives each entry its type
  \<^verbatim>\<open>_a\<close>, eleven doubles \<^verbatim>\<open>_dpar[0]\<close> to \<^verbatim>\<open>_dpar[10]\<close> (r1, theta0, x1, D1, zeta, Z1,
  Vi, Uj, Xi, Hard, Radius) and one integer \<^verbatim>\<open>_ipar[0]\<close>, the coordination.
\<close>

fun GetParameterUFF :: "string \<Rightarrow> OBFFParameter list \<Rightarrow> OBFFParameter option" where
  "GetParameterUFF a [] = None"
| "GetParameterUFF a (p # parameter) =
     (if a = par_a p then Some p else GetParameterUFF a parameter)"

record OBFFBondCalculationUFF =
  bond_a :: nat
  bond_b :: nat
  bond_bt :: real
  bond_r0 :: real
  bond_kb :: real

record OBFFAngleCalculationUFF =
  angle_a :: nat
  angle_b :: nat
  angle_c :: nat
  angle_coord :: int
  angle_zi :: real
  angle_zk :: real
  angle_theta0 :: real
  angle_cosT0 :: real
  angle_c0 :: real
  angle_c1 :: real
  angle_c2 :: real
  angle_ka :: real

record OBFFTorsionCalculationUFF =
  tor_a :: nat
  tor_b :: nat
  tor_c :: nat
  tor_d :: nat
  tor_tt :: real
  tor_V :: real
  tor_n :: int
  tor_cosNPhi0 :: real

record OBFFOOPCalculationUFF =
  oop_a :: nat
  oop_b :: nat
  oop_c :: nat
  oop_d :: nat
  oop_c0 :: real
  oop_c1 :: real
  oop_c2 :: real
  oop_koop :: real

record OBFFVDWCalculationUFF =
  vdw_a :: nat
  vdw_b :: nat
  vdw_Ra :: real
  vdw_ka :: real
  vdw_Rb :: real
  vdw_kb :: real
  vdw_kab :: real

record OBFFElectrostaticCalculationUFF =
  ele_a :: nat
  ele_b :: nat
  ele_qq :: real

datatype Term = BondTerm | AngleTerm | TorsionTerm | OOPTerm | VDWTerm | EleTerm

record OBForceFieldUFF =
  ffparams :: "OBFFParameter list"
  HasGroups :: bool
  intraGroup :: "nat set list"
  interGroup :: "nat set list"
  interGroups :: "(nat set \<times> nat set) list"
  m_terms :: "Term set"
  IsCutOffEnabled :: bool
  VDWPairs :: "nat set"
  ElePairs :: "nat set"
  bondcalculations :: "OBFFBondCalculationUFF list"
  anglecalculations :: "OBFFAngleCalculationUFF list"
  torsioncalculations :: "OBFFTorsionCalculationUFF list"
  oopcalculations :: "OBFFOOPCalculationUFF list"
  vdwcalculations :: "OBFFVDWCalculationUFF list"
  electrostaticcalculations :: "OBFFElectrostaticCalculationUFF list"

definition KCAL_TO_KJ :: real where
  \<comment> \<open>the constant of the OpenBabel headers\<close>
  "KCAL_TO_KJ = 41868 / 10000"

definition DEG_TO_RAD :: real where
  "DEG_TO_RAD = pi / 180"

definition EQn :: "string \<Rightarrow> string \<Rightarrow> nat \<Rightarrow> bool" where
  \<comment> \<open>\<^verbatim>\<open>!strncmp(a, b, n)\<close>\<close>
  "EQn a b n = (take n a = take n b)"

definition bondorder_of :: "OBBond \<Rightarrow> real" where
  \<comment> \<open>the bond order, 1.5 when aromatic, 1.41 when amide (the amide test comes last)\<close>
  "bondorder_of bd =
     (if IsAmide bd then 141 / 100 else if IsAromatic bd then 15 / 10 else real (BondOrder bd))"

definition CalculateBondDistance :: "OBFFParameter \<Rightarrow> OBFFParameter \<Rightarrow> real \<Rightarrow> real" where
  "CalculateBondDistance i j bondorder =
     (let ri = dpar0 i; rj = dpar0 j; chiI = dpar8 i; chiJ = dpar8 j;
          rbo = - (1332 / 10000) * (ri + rj) * ln bondorder;
          ren = ri * rj * (sqrt chiI - sqrt chiJ)\<^sup>2 / (chiI * ri + chiJ * rj)
      in ri + rj + rbo - ren)"

definition in_one_group :: "nat set list \<Rightarrow> nat list \<Rightarrow> bool" where
  \<comment> \<open>the loops that set \<^verbatim>\<open>validBond\<close>, \<^verbatim>\<open>validAngle\<close>, \<^verbatim>\<open>validTorsion\<close>, \<^verbatim>\<open>validOOP\<close>\<close>
  "in_one_group groups idxs = list_ex (\<lambda>g. list_all (\<lambda>i. i \<in> g) idxs) groups"

definition valid_pair :: "OBForceFieldUFF \<Rightarrow> nat \<Rightarrow> nat \<Rightarrow> bool" where
  \<comment> \<open>the loops that set \<^verbatim>\<open>validVDW\<close> and \<^verbatim>\<open>validEle\<close>\<close>
  "valid_pair ff a b =
     (list_ex (\<lambda>g. a \<in> g \<and> b \<in> g) (interGroup ff) \<or>
      list_ex (\<lambda>(g1, g2). (a \<in> g1 \<and> b \<in> g2) \<or> (b \<in> g1 \<and> a \<in> g2)) (interGroups ff))"

fun collect :: "('a \<Rightarrow> 'b list option) \<Rightarrow> 'a list \<Rightarrow> 'b list option" where
  \<comment> \<open>a loop that pushes the records of each item in turn and ends at a null dereference\<close>
  "collect f [] = Some []"
| "collect f (x # xs) = do { ys \<leftarrow> f x; zs \<leftarrow> collect f xs; Some (ys @ zs) }"


section \<open>SetupCalculations\<close>

definition SetupBond :: "OBForceFieldUFF \<Rightarrow> OBMol \<Rightarrow> OBBond \<Rightarrow> OBFFBondCalculationUFF list option" where
  \<comment> \<open>the body of \<^verbatim>\<open>FOR_BONDS_OF_MOL\<close>\<close>
  "SetupBond ff mol bond =
     (let a = BeginAtom bond; b = EndAtom bond
      in if HasGroups ff \<and> \<not> in_one_group (intraGroup ff) [a, b] then Some []
         else do {
           atomA \<leftarrow> GetAtom mol a;
           atomB \<leftarrow> GetAtom mol b;
           parameterA \<leftarrow> GetParameterUFF (Type atomA) (ffparams ff);
           parameterB \<leftarrow> GetParameterUFF (Type atomB) (ffparams ff);
           let bondorder = bondorder_of bond;
           let r0 = CalculateBondDistance parameterA parameterB bondorder;
           Some [\<lparr>bond_a = a, bond_b = b, bond_bt = bondorder, bond_r0 = r0,
                  bond_kb = ((1 / 2) * KCAL_TO_KJ * (66412 / 100) * dpar5 parameterA * dpar5 parameterB)
                            / (r0 * r0 * r0)\<rparr>]
         })"

definition SetupAngle ::
  "OBForceFieldUFF \<Rightarrow> OBMol \<Rightarrow> nat \<times> nat \<times> nat \<Rightarrow> OBFFAngleCalculationUFF list option" where
  \<comment> \<open>the body of \<^verbatim>\<open>FOR_ANGLES_OF_MOL\<close>; the first index of the triple is the vertex\<close>
  "SetupAngle ff mol angle =
     (case angle of (i0, i1, i2) \<Rightarrow>
        let b = i0 + 1; a = i1 + 1; c = i2 + 1
        in do {
          atomB \<leftarrow> GetAtom mol b;
          atomA \<leftarrow> GetAtom mol a;
          atomC \<leftarrow> GetAtom mol c;
          if HasGroups ff \<and> \<not> in_one_group (intraGroup ff) [a, b, c] then Some []
          else do {
            parameterA \<leftarrow> GetParameterUFF (Type atomA) (ffparams ff);
            parameterB \<leftarrow> GetParameterUFF (Type atomB) (ffparams ff);
            parameterC \<leftarrow> GetParameterUFF (Type atomC) (ffparams ff);
            let theta0 = dpar1 parameterB;
            let cosT0 = cos (theta0 * DEG_TO_RAD);
            let sinT0 = sin (theta0 * DEG_TO_RAD);
            let c2 = 1 / (4 * sinT0 * sinT0);
            let c1 = - 4 * c2 * cosT0;
            let c0 = c2 * (2 * cosT0 * cosT0 + 1);
            bondAB \<leftarrow> GetBond mol a b;
            let rab = CalculateBondDistance parameterA parameterB (bondorder_of bondAB);
            bondBC \<leftarrow> GetBond mol b c;
            let rbc = CalculateBondDistance parameterB parameterC (bondorder_of bondBC);
            let rac = sqrt (rab * rab + rbc * rbc - 2 * rab * rbc * cosT0);
            let zi = dpar5 parameterA;
            let zk = dpar5 parameterC;
            let ka = ((64412 / 100) * KCAL_TO_KJ) * (zi * zk / (rac ^ 5));
            Some [\<lparr>angle_a = a, angle_b = b, angle_c = c, angle_coord = ipar0 parameterB,
                   angle_zi = zi, angle_zk = zk, angle_theta0 = theta0, angle_cosT0 = cosT0,
                   angle_c0 = c0, angle_c1 = c1, angle_c2 = c2,
                   angle_ka = ka * (3 * rab * rbc * (1 - cosT0 * cosT0) - rac * rac * cosT0)\<rparr>]
          }
        })"

definition chalcogen :: "nat \<Rightarrow> bool" where
  \<comment> \<open>\<^verbatim>\<open>case 8: case 16: case 34: case 52: case 84:\<close>\<close>
  "chalcogen z = (z = 8 \<or> z = 16 \<or> z = 34 \<or> z = 52 \<or> z = 84)"

definition torsion_table ::
  "OBFFParameter \<Rightarrow> OBFFParameter \<Rightarrow> nat \<Rightarrow> nat \<Rightarrow> real \<Rightarrow> real \<times> int \<times> real \<Rightarrow> real \<times> int \<times> real" where
  \<comment> \<open>the decision on the coordination of the two central atoms. It reads and writes
      \<^verbatim>\<open>phi0\<close>, \<^verbatim>\<open>torsioncalc.n\<close> and \<^verbatim>\<open>torsioncalc.V\<close>, which are declared outside the
      loop: when no branch applies they keep the values of the torsion before.\<close>
  "torsion_table parameterB parameterC zB zC torsiontype old =
     (if ipar0 parameterB = 3 \<and> ipar0 parameterC = 3 then
        let vi = (if zB = 8 then 2 else if chalcogen zB then 68 / 10 else dpar6 parameterB);
            vj = (if zC = 8 then 2 else if chalcogen zC then 68 / 10 else dpar6 parameterC);
            n = (if chalcogen zB \<or> chalcogen zC then 2 else 3);
            phi0 = (if chalcogen zB \<or> chalcogen zC then 90 else 60)
        in (phi0, n, (1 / 2) * KCAL_TO_KJ * sqrt (vi * vj))
      else if ipar0 parameterB = 2 \<and> ipar0 parameterC = 2 then
        (180, 2, (1 / 2) * KCAL_TO_KJ * 5 * sqrt (dpar7 parameterB * dpar7 parameterC)
                   * (1 + (418 / 100) * ln torsiontype))
      else if (ipar0 parameterB = 2 \<and> ipar0 parameterC = 3)
              \<or> (ipar0 parameterB = 3 \<and> ipar0 parameterC = 2) then
        if (ipar0 parameterC = 3 \<and> chalcogen zC) \<or> (ipar0 parameterB = 3 \<and> chalcogen zB)
        then (90, 2, (1 / 2) * KCAL_TO_KJ * 1)
        else (0, 6, (1 / 2) * KCAL_TO_KJ * 1)
      else old)"

definition SetupTorsion ::
  "OBForceFieldUFF \<Rightarrow> OBMol \<Rightarrow> nat \<times> nat \<times> nat \<times> nat \<Rightarrow> real \<times> int \<times> real
     \<Rightarrow> ((real \<times> int \<times> real) \<times> OBFFTorsionCalculationUFF list) option" where
  \<comment> \<open>the body of \<^verbatim>\<open>FOR_TORSIONS_OF_MOL\<close>: takes and returns \<^verbatim>\<open>phi0\<close>,
      \<^verbatim>\<open>torsioncalc.n\<close>, \<^verbatim>\<open>torsioncalc.V\<close>\<close>
  "SetupTorsion ff mol t old =
     (case t of (i0, i1, i2, i3) \<Rightarrow>
        let a = i0 + 1; b = i1 + 1; c = i2 + 1; d = i3 + 1
        in do {
          atomA \<leftarrow> GetAtom mol a;
          atomB \<leftarrow> GetAtom mol b;
          atomC \<leftarrow> GetAtom mol c;
          atomD \<leftarrow> GetAtom mol d;
          if HasGroups ff \<and> \<not> in_one_group (intraGroup ff) [a, b, c, d] then Some (old, [])
          else do {
            bc \<leftarrow> GetBond mol b c;
            let torsiontype = bondorder_of bc;
            parameterB \<leftarrow> GetParameterUFF (Type atomB) (ffparams ff);
            parameterC \<leftarrow> GetParameterUFF (Type atomC) (ffparams ff);
            let new = torsion_table parameterB parameterC (AtomicNum atomB) (AtomicNum atomC)
                        torsiontype old;
            (case new of (phi0, n, V) \<Rightarrow>
               if IsNearZero_default V then Some (new, [])
               else Some (new, [\<lparr>tor_a = a, tor_b = b, tor_c = c, tor_d = d, tor_tt = torsiontype,
                                  tor_V = V, tor_n = n,
                                  tor_cosNPhi0 = cos (real_of_int n * DEG_TO_RAD * phi0)\<rparr>]))
          }
        })"

fun SetupTorsions ::
  "OBForceFieldUFF \<Rightarrow> OBMol \<Rightarrow> (nat \<times> nat \<times> nat \<times> nat) list \<Rightarrow> real \<times> int \<times> real
     \<Rightarrow> OBFFTorsionCalculationUFF list option" where
  "SetupTorsions ff mol [] old = Some []"
| "SetupTorsions ff mol (t # ts) old =
     do { (new, ys) \<leftarrow> SetupTorsion ff mol t old;
          zs \<leftarrow> SetupTorsions ff mol ts new;
          Some (ys @ zs) }"

definition oop_element :: "nat \<Rightarrow> bool" where
  \<comment> \<open>the \<^verbatim>\<open>switch (b->GetAtomicNum())\<close>: C, N, O, P, As, Sb, Bi\<close>
  "oop_element z = (z = 6 \<or> z = 7 \<or> z = 8 \<or> z = 15 \<or> z = 33 \<or> z = 51 \<or> z = 83)"

definition oop_N_O_type :: "string \<Rightarrow> bool" where
  "oop_N_O_type ty = (EQn ty ''N_3'' 3 \<or> EQn ty ''N_2'' 3 \<or> EQn ty ''N_R'' 3
                      \<or> EQn ty ''O_2'' 3 \<or> EQn ty ''O_R'' 3)"

definition oop_P_type :: "string \<Rightarrow> bool" where
  "oop_P_type ty = (EQn ty ''P_3+3'' 5 \<or> EQn ty ''As3+3'' 5 \<or> EQn ty ''Sb3+3'' 5
                    \<or> EQn ty ''Bi3+3'' 5)"

definition oop_C_type :: "string \<Rightarrow> bool" where
  "oop_C_type ty = (EQn ty ''C_2'' 3 \<or> EQn ty ''C_R'' 3)"

definition oop_phi :: "string \<Rightarrow> real" where
  "oop_phi ty =
     (if EQn ty ''P_3+3'' 5 then (844339 / 10000) * DEG_TO_RAD
      else if EQn ty ''As3+3'' 5 then (869735 / 10000) * DEG_TO_RAD
      else if EQn ty ''Sb3+3'' 5 then (877047 / 10000) * DEG_TO_RAD
      else 90 * DEG_TO_RAD)"

definition oop_constants :: "string \<Rightarrow> bool \<Rightarrow> real \<times> real \<times> real \<times> real" where
  \<comment> \<open>\<^verbatim>\<open>c0\<close>, \<^verbatim>\<open>c1\<close>, \<^verbatim>\<open>c2\<close>, \<^verbatim>\<open>koop\<close> of the centre; the flag says that a neighbour
      has a type that starts with \<^verbatim>\<open>O_2\<close>\<close>
  "oop_constants ty bondedToO =
     (if oop_N_O_type ty then (1, - 1, 0, 6 * KCAL_TO_KJ)
      else if oop_P_type ty then
        let phi = oop_phi ty; c1 = - 4 * cos phi; c2 = 1
        in (- 1 * c1 * cos phi + c2 * cos (2 * phi), c1, c2, 22 * KCAL_TO_KJ)
      else (1, - 1, 0, if bondedToO then 50 * KCAL_TO_KJ else 6 * KCAL_TO_KJ))"

definition SetupOOP :: "OBForceFieldUFF \<Rightarrow> OBMol \<Rightarrow> nat \<Rightarrow> OBFFOOPCalculationUFF list option" where
  \<comment> \<open>the body of \<^verbatim>\<open>FOR_ATOMS_OF_MOL\<close> for the centre with index \<open>b\<close>. The neighbour
      loop keeps the first neighbour in \<^verbatim>\<open>a\<close>, the second in \<^verbatim>\<open>c\<close> and overwrites
      \<^verbatim>\<open>d\<close> with every later one.\<close>
  "SetupOOP ff mol b =
     do {
       atomB \<leftarrow> GetAtom mol b;
       if \<not> oop_element (AtomicNum atomB) then Some []
       else if \<not> (oop_N_O_type (Type atomB) \<or> oop_P_type (Type atomB) \<or> oop_C_type (Type atomB))
       then Some []
       else (case nbors mol b of
               a # c # d0 # rest \<Rightarrow>
                 let d = last (d0 # rest)
                 in if HasGroups ff \<and> \<not> in_one_group (intraGroup ff) [a, b, c, d] then Some []
                    else do {
                      bondedToO \<leftarrow>
                        (if oop_N_O_type (Type atomB) \<or> oop_P_type (Type atomB) then Some False
                         else do {
                           atomA \<leftarrow> GetAtom mol a;
                           atomC \<leftarrow> GetAtom mol c;
                           atomD \<leftarrow> GetAtom mol d;
                           Some (EQn (Type atomA) ''O_2'' 3 \<or> EQn (Type atomC) ''O_2'' 3
                                 \<or> EQn (Type atomD) ''O_2'' 3)
                         });
                      (case oop_constants (Type atomB) bondedToO of (c0, c1, c2, koop) \<Rightarrow>
                         let oopcalc = \<lparr>oop_a = a, oop_b = b, oop_c = c, oop_d = d,
                                        oop_c0 = c0, oop_c1 = c1, oop_c2 = c2, oop_koop = koop / 3\<rparr>
                         in Some [oopcalc,
                                  oopcalc\<lparr>oop_a := d, oop_d := a\<rparr>,
                                  oopcalc\<lparr>oop_a := a, oop_c := d, oop_d := c\<rparr>])
                    }
             | _ \<Rightarrow> Some [])
     }"

definition SetupVDW :: "OBForceFieldUFF \<Rightarrow> OBMol \<Rightarrow> nat \<times> nat \<Rightarrow> OBFFVDWCalculationUFF list option" where
  \<comment> \<open>the body of \<^verbatim>\<open>FOR_PAIRS_OF_MOL\<close> in \<^verbatim>\<open>SetupCalculations\<close>\<close>
  "SetupVDW ff mol p =
     (case p of (a, b) \<Rightarrow>
        do {
          atomA \<leftarrow> GetAtom mol a;
          atomB \<leftarrow> GetAtom mol b;
          if HasGroups ff \<and> \<not> valid_pair ff a b then Some []
          else if IsConnected mol a b then Some []
          else if IsOneThree mol a b then Some []
          else do {
            parameterA \<leftarrow> GetParameterUFF (Type atomA) (ffparams ff);
            parameterB \<leftarrow> GetParameterUFF (Type atomB) (ffparams ff);
            let Ra = dpar2 parameterA;
            let ka = dpar3 parameterA;
            let Rb = dpar2 parameterB;
            let kb = dpar3 parameterB;
            Some [\<lparr>vdw_a = a, vdw_b = b, vdw_Ra = Ra, vdw_ka = sqrt (Ra * Rb), vdw_Rb = Rb,
                   vdw_kb = kb, vdw_kab = KCAL_TO_KJ * sqrt (ka * kb)\<rparr>]
          }
        })"

definition SetupCalculations ::
  "OBForceFieldUFF \<Rightarrow> OBMol \<Rightarrow> real \<times> int \<times> real \<Rightarrow> (bool \<times> OBForceFieldUFF) option" where
  \<comment> \<open>returns the value of the function and the force field with its five lists rebuilt.
      The third argument holds \<^verbatim>\<open>phi0\<close> (0.0) and the \<^verbatim>\<open>n\<close> and \<^verbatim>\<open>V\<close> of the local
      \<^verbatim>\<open>torsioncalc\<close>, which the code does not initialise. The only return statement
      is \<^verbatim>\<open>return true\<close>.\<close>
  "SetupCalculations ff mol torsioncalc0 =
     do {
       bs \<leftarrow> collect (SetupBond ff mol) (bonds mol);
       as \<leftarrow> collect (SetupAngle ff mol) (angles mol);
       ts \<leftarrow> SetupTorsions ff mol (torsions mol) torsioncalc0;
       os \<leftarrow> collect (SetupOOP ff mol) [1 ..< Suc (length (atoms mol))];
       vs \<leftarrow> collect (SetupVDW ff mol) (pairs mol);
       Some (True, ff\<lparr>bondcalculations := bs, anglecalculations := as,
                      torsioncalculations := ts, oopcalculations := os,
                      vdwcalculations := vs\<rparr>)
     }"

definition SetupEle ::
  "OBForceFieldUFF \<Rightarrow> OBMol \<Rightarrow> nat \<times> nat \<Rightarrow> OBFFElectrostaticCalculationUFF list option" where
  \<comment> \<open>the body of \<^verbatim>\<open>FOR_PAIRS_OF_MOL\<close> in \<^verbatim>\<open>SetupElectrostatics\<close>\<close>
  "SetupEle ff mol p =
     (case p of (a, b) \<Rightarrow>
        do {
          atomA \<leftarrow> GetAtom mol a;
          atomB \<leftarrow> GetAtom mol b;
          if HasGroups ff \<and> \<not> valid_pair ff a b then Some []
          else if IsConnected mol a b then Some []
          else if IsOneThree mol a b then Some []
          else
            let qq = KCAL_TO_KJ * (3320637 / 10000) * PartialCharge atomA * PartialCharge atomB
            in if qq \<noteq> 0 then Some [\<lparr>ele_a = a, ele_b = b, ele_qq = qq\<rparr>] else Some []
        })"

definition SetupElectrostatics :: "OBForceFieldUFF \<Rightarrow> OBMol \<Rightarrow> (bool \<times> OBForceFieldUFF) option" where
  "SetupElectrostatics ff mol =
     do {
       es \<leftarrow> collect (SetupEle ff mol) (pairs mol);
       Some (True, ff\<lparr>electrostaticcalculations := es\<rparr>)
     }"


section \<open>The energy terms and Energy\<close>

text \<open>
  The angle helpers of \<^verbatim>\<open>vectormath.cpp\<close> return a double that the energy terms test
  with \<^verbatim>\<open>isfinite\<close>. Such a value is a real number or not finite (NaN or an infinity).
  The helpers themselves are parameters of the model, collected in a record. So is the
  double that \<^verbatim>\<open>acos(x / y)\<close> evaluates to in \<^verbatim>\<open>E_Torsion\<close>: it is NaN for a zero
  divisor and for a quotient that rounding puts outside \<open>[-1, 1]\<close>, which happens for
  parallel vectors and is what the test after it is for. The model returns the energy; the
  forces that the \<^verbatim>\<open>gradients\<close> variants add to the gradient array are not part of it.
\<close>

datatype double = Finite real | NonFinite

fun isfinite :: "double \<Rightarrow> bool" where
  "isfinite (Finite x) = True"
| "isfinite NonFinite = False"

fun dscale :: "double \<Rightarrow> real \<Rightarrow> double" where
  \<comment> \<open>the product of a double and a finite constant\<close>
  "dscale (Finite x) k = Finite (x * k)"
| "dscale NonFinite k = NonFinite"

fun finite_or :: "double \<Rightarrow> real \<Rightarrow> real" where
  \<comment> \<open>\<^verbatim>\<open>if (!isfinite(x)) x = fallback;\<close>\<close>
  "finite_or (Finite x) fallback = x"
| "finite_or NonFinite fallback = fallback"

fun the_finite :: "double \<Rightarrow> real" where
  \<comment> \<open>the value of a double that has passed the \<^verbatim>\<open>isfinite\<close> test\<close>
  "the_finite (Finite x) = x"

record vectormath =
  VectorBondDerivative :: "Vector3d \<Rightarrow> Vector3d \<Rightarrow> real"
  VectorDistanceDerivative :: "Vector3d \<Rightarrow> Vector3d \<Rightarrow> real"
  VectorAngle :: "Vector3d \<Rightarrow> Vector3d \<Rightarrow> double"
  VectorAngleDerivative :: "Vector3d \<Rightarrow> Vector3d \<Rightarrow> Vector3d \<Rightarrow> double"
  VectorTorsionDerivative :: "Vector3d \<Rightarrow> Vector3d \<Rightarrow> Vector3d \<Rightarrow> Vector3d \<Rightarrow> double"
  VectorOOP :: "Vector3d \<Rightarrow> Vector3d \<Rightarrow> Vector3d \<Rightarrow> Vector3d \<Rightarrow> double"
  VectorOOPDerivative :: "Vector3d \<Rightarrow> Vector3d \<Rightarrow> Vector3d \<Rightarrow> Vector3d \<Rightarrow> double"
  acos_quotient :: "real \<Rightarrow> real \<Rightarrow> double"

definition pos_at :: "Vector3d list \<Rightarrow> nat \<Rightarrow> Vector3d option" where
  \<comment> \<open>\<^verbatim>\<open>GetPositions()[a->GetIdx() - 1]\<close>; reading past the array has no result\<close>
  "pos_at positions idx =
     (if 1 \<le> idx \<and> idx \<le> length positions then Some (positions ! (idx - 1)) else None)"

fun accumulate :: "('a \<Rightarrow> real option) \<Rightarrow> 'a list \<Rightarrow> real \<Rightarrow> real option" where
  \<comment> \<open>the loop \<^verbatim>\<open>energy += e\<close> over a calculation list\<close>
  "accumulate f [] energy = Some energy"
| "accumulate f (i # rest) energy = do { e \<leftarrow> f i; accumulate f rest (energy + e) }"

definition bond_e :: "vectormath \<Rightarrow> bool \<Rightarrow> Vector3d list \<Rightarrow> OBFFBondCalculationUFF \<Rightarrow> real option" where
  "bond_e vm gradients positions i =
     do {
       pa \<leftarrow> pos_at positions (bond_a i);
       pb \<leftarrow> pos_at positions (bond_b i);
       let rab = (if gradients then VectorBondDerivative vm pa pb else norm3 (vsub pa pb));
       let delta = rab - bond_r0 i;
       Some (bond_kb i * (delta * delta))
     }"

definition E_Bond :: "vectormath \<Rightarrow> OBForceFieldUFF \<Rightarrow> Vector3d list \<Rightarrow> bool \<Rightarrow> real option" where
  "E_Bond vm ff positions gradients =
     accumulate (bond_e vm gradients positions) (bondcalculations ff) 0"

definition angle_raw :: "vectormath \<Rightarrow> bool \<Rightarrow> Vector3d \<Rightarrow> Vector3d \<Rightarrow> Vector3d \<Rightarrow> double" where
  \<comment> \<open>\<^verbatim>\<open>theta\<close> as computed, before the \<^verbatim>\<open>isfinite\<close> test\<close>
  "angle_raw vm gradients pa pb pc =
     dscale (if gradients then VectorAngleDerivative vm pa pb pc
             else VectorAngle vm (vsub pa pb) (vsub pc pb)) DEG_TO_RAD"

definition angle_theta :: "vectormath \<Rightarrow> bool \<Rightarrow> Vector3d \<Rightarrow> Vector3d \<Rightarrow> Vector3d \<Rightarrow> real" where
  \<comment> \<open>\<^verbatim>\<open>theta\<close> after the \<^verbatim>\<open>isfinite\<close> test\<close>
  "angle_theta vm gradients pa pb pc = finite_or (angle_raw vm gradients pa pb pc) 0"

definition angle_energy :: "OBFFAngleCalculationUFF \<Rightarrow> real \<Rightarrow> real" where
  \<comment> \<open>\<^verbatim>\<open>e\<close> of one angle, from \<^verbatim>\<open>theta\<close>\<close>
  "angle_energy i theta =
     (let cosT = cos theta
      in if angle_coord i = 1 then angle_ka i * (1 + cosT)
         else if angle_coord i = 2 then (angle_ka i / (45 / 10)) * (1 + (1 + cosT) * (4 * cosT))
         else if angle_coord i = 4 \<or> angle_coord i = 6 then angle_ka i * (1 + cosT) * cosT * cosT
         else angle_ka i * (angle_c0 i + angle_c1 i * cosT + angle_c2 i * (2 * cosT * cosT - 1)))"

definition angle_e :: "vectormath \<Rightarrow> bool \<Rightarrow> Vector3d list \<Rightarrow> OBFFAngleCalculationUFF \<Rightarrow> real option" where
  "angle_e vm gradients positions i =
     do {
       pa \<leftarrow> pos_at positions (angle_a i);
       pb \<leftarrow> pos_at positions (angle_b i);
       pc \<leftarrow> pos_at positions (angle_c i);
       Some (angle_energy i (angle_theta vm gradients pa pb pc))
     }"

definition E_Angle :: "vectormath \<Rightarrow> OBForceFieldUFF \<Rightarrow> Vector3d list \<Rightarrow> bool \<Rightarrow> real option" where
  "E_Angle vm ff positions gradients =
     accumulate (angle_e vm gradients positions) (anglecalculations ff) 0"

definition dotAbbcBccd :: "Vector3d \<Rightarrow> Vector3d \<Rightarrow> Vector3d \<Rightarrow> Vector3d \<Rightarrow> real" where
  \<comment> \<open>the dot product of the two plane normals, computed in place without gradients\<close>
  "dotAbbcBccd pa pb pc pd =
     (let vab = vsub pa pb; vbc = vsub pb pc; vcd = vsub pc pd;
          abbc = cross vab vbc; bccd = cross vbc vcd
      in dot abbc bccd)"

definition torsion_raw ::
  "vectormath \<Rightarrow> bool \<Rightarrow> Vector3d \<Rightarrow> Vector3d \<Rightarrow> Vector3d \<Rightarrow> Vector3d \<Rightarrow> double" where
  \<comment> \<open>\<^verbatim>\<open>tor\<close> as computed, before the \<^verbatim>\<open>isfinite\<close> test: the helper's angle in degrees
      with gradients, \<^verbatim>\<open>acos(dotAbbcBccd / (abbc.norm() * bccd.norm()))\<close> without\<close>
  "torsion_raw vm gradients pa pb pc pd =
     (if gradients then VectorTorsionDerivative vm pa pb pc pd
      else
        let vab = vsub pa pb; vbc = vsub pb pc; vcd = vsub pc pd;
            abbc = cross vab vbc; bccd = cross vbc vcd
        in acos_quotient vm (dot abbc bccd) (norm3 abbc * norm3 bccd))"

definition torsion_tor ::
  "vectormath \<Rightarrow> bool \<Rightarrow> Vector3d \<Rightarrow> Vector3d \<Rightarrow> Vector3d \<Rightarrow> Vector3d \<Rightarrow> real" where
  \<comment> \<open>\<^verbatim>\<open>tor\<close> in radians, as the energy uses it. With gradients the fallback is set
      before the conversion from degrees.\<close>
  "torsion_tor vm gradients pa pb pc pd =
     (let tor = torsion_raw vm gradients pa pb pc pd
      in if gradients then finite_or tor (1 / 1000) * DEG_TO_RAD
         else if IsNearZero_default (dotAbbcBccd pa pb pc pd) \<or> \<not> isfinite tor then 1 / 1000
         else if dotAbbcBccd pa pb pc pd > 0 then - the_finite tor
         else the_finite tor)"

definition torsion_energy :: "OBFFTorsionCalculationUFF \<Rightarrow> real \<Rightarrow> real" where
  \<comment> \<open>\<^verbatim>\<open>e\<close> of one torsion, from \<^verbatim>\<open>tor\<close>\<close>
  "torsion_energy i tor =
     (let cosine = cos (tor * real_of_int (tor_n i))
      in tor_V i * (1 - tor_cosNPhi0 i * cosine))"

definition torsion_e ::
  "vectormath \<Rightarrow> bool \<Rightarrow> Vector3d list \<Rightarrow> OBFFTorsionCalculationUFF \<Rightarrow> real option" where
  "torsion_e vm gradients positions i =
     do {
       pa \<leftarrow> pos_at positions (tor_a i);
       pb \<leftarrow> pos_at positions (tor_b i);
       pc \<leftarrow> pos_at positions (tor_c i);
       pd \<leftarrow> pos_at positions (tor_d i);
       Some (torsion_energy i (torsion_tor vm gradients pa pb pc pd))
     }"

definition E_Torsion :: "vectormath \<Rightarrow> OBForceFieldUFF \<Rightarrow> Vector3d list \<Rightarrow> bool \<Rightarrow> real option" where
  "E_Torsion vm ff positions gradients =
     accumulate (torsion_e vm gradients positions) (torsioncalculations ff) 0"

definition oop_raw ::
  "vectormath \<Rightarrow> bool \<Rightarrow> Vector3d \<Rightarrow> Vector3d \<Rightarrow> Vector3d \<Rightarrow> Vector3d \<Rightarrow> double" where
  \<comment> \<open>\<^verbatim>\<open>angle\<close> as computed, before the \<^verbatim>\<open>isfinite\<close> test\<close>
  "oop_raw vm gradients pa pb pc pd =
     dscale (if gradients then VectorOOPDerivative vm pa pb pc pd
             else VectorOOP vm pa pb pc pd) DEG_TO_RAD"

definition oop_angle ::
  "vectormath \<Rightarrow> bool \<Rightarrow> Vector3d \<Rightarrow> Vector3d \<Rightarrow> Vector3d \<Rightarrow> Vector3d \<Rightarrow> real" where
  \<comment> \<open>\<^verbatim>\<open>angle\<close> after the \<^verbatim>\<open>isfinite\<close> test\<close>
  "oop_angle vm gradients pa pb pc pd = finite_or (oop_raw vm gradients pa pb pc pd) 0"

definition oop_energy :: "OBFFOOPCalculationUFF \<Rightarrow> real \<Rightarrow> real" where
  "oop_energy i angle =
     oop_koop i * (oop_c0 i + oop_c1 i * cos angle + oop_c2 i * cos (2 * angle))"

definition oop_e :: "vectormath \<Rightarrow> bool \<Rightarrow> Vector3d list \<Rightarrow> OBFFOOPCalculationUFF \<Rightarrow> real option" where
  "oop_e vm gradients positions i =
     do {
       pa \<leftarrow> pos_at positions (oop_a i);
       pb \<leftarrow> pos_at positions (oop_b i);
       pc \<leftarrow> pos_at positions (oop_c i);
       pd \<leftarrow> pos_at positions (oop_d i);
       Some (oop_energy i (oop_angle vm gradients pa pb pc pd))
     }"

definition E_OOP :: "vectormath \<Rightarrow> OBForceFieldUFF \<Rightarrow> Vector3d list \<Rightarrow> bool \<Rightarrow> real option" where
  "E_OOP vm ff positions gradients =
     accumulate (oop_e vm gradients positions) (oopcalculations ff) 0"

definition vdw_e ::
  "vectormath \<Rightarrow> OBForceFieldUFF \<Rightarrow> bool \<Rightarrow> Vector3d list \<Rightarrow> nat \<times> OBFFVDWCalculationUFF \<Rightarrow> real option" where
  \<comment> \<open>one van der Waals pair with its position \<open>j\<close> in the list; a pair cut off adds nothing\<close>
  "vdw_e vm ff gradients positions ji =
     (case ji of (j, i) \<Rightarrow>
        if IsCutOffEnabled ff \<and> j \<notin> VDWPairs ff then Some 0
        else do {
          pa \<leftarrow> pos_at positions (vdw_a i);
          pb \<leftarrow> pos_at positions (vdw_b i);
          let rab0 = (if gradients then VectorDistanceDerivative vm pa pb else norm3 (vsub pa pb));
          let rab = (if IsNearZero rab0 (1 / 1000) then 1 / 1000 else rab0);
          let term = vdw_ka i / rab;
          let term6 = (term * term * term) * (term * term * term);
          let term12 = term6 * term6;
          Some (vdw_kab i * (term12 - 2 * term6))
        })"

definition E_VDW :: "vectormath \<Rightarrow> OBForceFieldUFF \<Rightarrow> Vector3d list \<Rightarrow> bool \<Rightarrow> real option" where
  "E_VDW vm ff positions gradients =
     accumulate (vdw_e vm ff gradients positions)
       (zip [0 ..< length (vdwcalculations ff)] (vdwcalculations ff)) 0"

definition ele_e ::
  "vectormath \<Rightarrow> OBForceFieldUFF \<Rightarrow> bool \<Rightarrow> Vector3d list \<Rightarrow> nat \<times> OBFFElectrostaticCalculationUFF
     \<Rightarrow> real option" where
  "ele_e vm ff gradients positions ji =
     (case ji of (j, i) \<Rightarrow>
        if IsCutOffEnabled ff \<and> j \<notin> ElePairs ff then Some 0
        else do {
          pa \<leftarrow> pos_at positions (ele_a i);
          pb \<leftarrow> pos_at positions (ele_b i);
          let rab0 = (if gradients then VectorDistanceDerivative vm pa pb else norm3 (vsub pa pb));
          let rab = (if IsNearZero rab0 (1 / 1000) then 1 / 1000 else rab0);
          Some (ele_qq i / rab)
        })"

definition E_Electrostatic ::
  "vectormath \<Rightarrow> OBForceFieldUFF \<Rightarrow> Vector3d list \<Rightarrow> bool \<Rightarrow> real option" where
  "E_Electrostatic vm ff positions gradients =
     accumulate (ele_e vm ff gradients positions)
       (zip [0 ..< length (electrostaticcalculations ff)] (electrostaticcalculations ff)) 0"

definition Energy :: "vectormath \<Rightarrow> OBForceFieldUFF \<Rightarrow> Vector3d list \<Rightarrow> bool \<Rightarrow> real option" where
  \<comment> \<open>the sum of the enabled terms; the call of \<^verbatim>\<open>E_Electrostatic\<close> is commented out in
      the code\<close>
  "Energy vm ff positions gradients =
     do {
       energy \<leftarrow> (if BondTerm \<in> m_terms ff then E_Bond vm ff positions gradients else Some 0);
       energy \<leftarrow> (if AngleTerm \<in> m_terms ff
                   then do { e \<leftarrow> E_Angle vm ff positions gradients; Some (energy + e) }
                   else Some energy);
       energy \<leftarrow> (if TorsionTerm \<in> m_terms ff
                   then do { e \<leftarrow> E_Torsion vm ff positions gradients; Some (energy + e) }
                   else Some energy);
       energy \<leftarrow> (if OOPTerm \<in> m_terms ff
                   then do { e \<leftarrow> E_OOP vm ff positions gradients; Some (energy + e) }
                   else Some energy);
       energy \<leftarrow> (if VDWTerm \<in> m_terms ff
                   then do { e \<leftarrow> E_VDW vm ff positions gradients; Some (energy + e) }
                   else Some energy);
       Some energy
     }"

section \<open>obminimize.cpp: the direction of conjugate gradients\<close>

text \<open>
  The direction of an atom is computed in doubles and tested with \<^verbatim>\<open>isfinite\<close> by both
  line searches, so it is a vector of reals or not finite.
\<close>

datatype dvector = FiniteV Vector3d | NonFiniteV

definition cg_atom :: "nat \<Rightarrow> nat \<Rightarrow> Vector3d \<Rightarrow> Vector3d \<Rightarrow> dvector" where
  \<comment> \<open>the body of the loop over \<^verbatim>\<open>idx\<close>, for a function with analytical gradients: the
      new \<^verbatim>\<open>d->grad1[idx]\<close> from the step count, the number of positions, the gradient of
      the atom and the stored \<^verbatim>\<open>d->grad1[idx]\<close>. For \<^verbatim>\<open>g1g1\<close> zero the stored vector is
      zero and \<^verbatim>\<open>beta\<close> is an infinity or NaN, so that \<^verbatim>\<open>beta * grad1\<close> is NaN in every
      component.\<close>
  "cg_atom cstep natoms gradient stored =
     (if cstep mod natoms \<noteq> 0 then
        let grad2 = gradient;
            g2g2 = dot grad2 grad2;
            grad1 = stored;
            g1g1 = dot grad1 grad1
        in if g1g1 = 0 then NonFiniteV
           else let beta = g2g2 / g1g1 in FiniteV (vadd grad2 (smul grad1 beta))
      else FiniteV gradient)"

definition cg_direction ::
  "nat \<Rightarrow> nat \<Rightarrow> Vector3d list \<Rightarrow> Vector3d list \<Rightarrow> error + dvector list" where
  \<comment> \<open>\<^verbatim>\<open>d->grad1\<close> after the loop over \<^verbatim>\<open>idx < GetPositions().size()\<close>\<close>
  "cg_direction cstep natoms gradients stored =
     (if length gradients < natoms \<or> length stored < natoms then Inl IndexOutOfRange
      else Inr (map2 (cg_atom cstep natoms) (take natoms gradients) (take natoms stored)
                @ map FiniteV (drop natoms stored)))"

fun searched :: "dvector \<Rightarrow> Vector3d" where
  \<comment> \<open>what a line search makes of the direction of one atom: \<^verbatim>\<open>LineSearch\<close> does not
      move an atom whose direction is not finite, \<^verbatim>\<open>Newton2NumLineSearch\<close> sets the
      direction to zero\<close>
  "searched (FiniteV v) = v"
| "searched NonFiniteV = Vec 0 0 0"

definition Fletcher_Reeves_direction ::
  "Vector3d list \<Rightarrow> Vector3d list \<Rightarrow> Vector3d list \<Rightarrow> Vector3d list" where
  \<comment> \<open>the direction of the specification, from the new gradient, the old gradient and the
      previous direction: the gradient plus \<open>beta\<close> times the previous direction, with
      \<open>beta = (g_new . g_new) / (g_old . g_old)\<close>, the dot products being those of the whole
      gradients\<close>
  "Fletcher_Reeves_direction g_new g_old previous =
     (let beta = sum_list (map (\<lambda>g. dot g g) g_new) / sum_list (map (\<lambda>g. dot g g) g_old)
      in map2 (\<lambda>g p. vadd g (smul p beta)) g_new previous)"

datatype LineSearchType = Simple | Newton2Num

record OBMinimizePrivate =
  d_econv :: real
  d_e_n1 :: real
  d_cstep :: nat
  d_nsteps :: int
  d_grad1 :: "Vector3d list"
  d_linesearch :: LineSearchType

record OBFunction =
  m_positions :: "Vector3d list"
  m_gradients :: "Vector3d list"

definition cg_search_direction :: "OBMinimizePrivate \<Rightarrow> OBFunction \<Rightarrow> error + dvector list" where
  \<comment> \<open>the direction one pass of the loop of \<^verbatim>\<open>ConjugateGradientsTakeNSteps\<close> hands to the
      line search: \<^verbatim>\<open>d->cstep++\<close> comes first\<close>
  "cg_search_direction d fn =
     cg_direction (d_cstep d + 1) (length (m_positions fn)) (m_gradients fn) (d_grad1 d)"

definition ConjugateGradients_step ::
  "(Vector3d list \<Rightarrow> real) \<Rightarrow> (Vector3d list \<Rightarrow> Vector3d list) \<Rightarrow> OBMinimizePrivate \<Rightarrow> OBFunction
     \<Rightarrow> error + (bool \<times> OBMinimizePrivate \<times> OBFunction)" where
  \<comment> \<open>one pass of the loop; \<open>E\<close> and \<open>G\<close> are the energy and the gradients that
      \<^verbatim>\<open>Compute(OBFunction::Gradients)\<close> stores. After the line search \<^verbatim>\<open>d->grad1\<close> is
      overwritten with \<^verbatim>\<open>m_function->GetGradients()\<close>, the gradients of the start of the
      pass. The flag is False when the pass ends in \<^verbatim>\<open>return false\<close>.\<close>
  "ConjugateGradients_step E G d fn =
     (case cg_search_direction d fn of
        Inl err \<Rightarrow> Inl err
      | Inr dir \<Rightarrow>
          (case (if d_linesearch d = Newton2Num
                 then Newton2NumLineSearch E (d_e_n1 d) (m_positions fn) (map searched dir)
                 else LineSearch E (m_positions fn) (map searched dir)) of
             Inl err \<Rightarrow> Inl err
           | Inr (moved, alpha) \<Rightarrow>
               let d1 = d\<lparr>d_cstep := d_cstep d + 1, d_grad1 := m_gradients fn\<rparr>;
                   fn1 = \<lparr>m_positions = moved, m_gradients = G moved\<rparr>;
                   e_n2 = E moved
               in if IsNear e_n2 (d_e_n1 d1) (d_econv d1) then Inr (False, d1, fn1)
                  else if d_nsteps d1 = int (d_cstep d1) then Inr (False, d1, fn1)
                  else Inr (True, d1\<lparr>d_e_n1 := e_n2\<rparr>, fn1)))"


section \<open>Example inputs\<close>

text \<open>
  Two entries of the parameter file UFF.prm, as \<^verbatim>\<open>ParseParamFile\<close> stores them (the
  coordination comes from the third character of the type), a force field without groups
  and with empty lists, and a few small molecules.
\<close>

definition H_param :: OBFFParameter where
  "H_param = \<lparr>par_a = ''H_'', dpar0 = 354 / 1000, dpar1 = 180, dpar2 = 2886 / 1000,
     dpar3 = 44 / 1000, dpar4 = 12, dpar5 = 712 / 1000, dpar6 = 0, dpar7 = 0,
     dpar8 = 4528 / 1000, dpar9 = 69452 / 10000, dpar10 = 371 / 1000, ipar0 = 1\<rparr>"

definition C_3_param :: OBFFParameter where
  "C_3_param = \<lparr>par_a = ''C_3'', dpar0 = 757 / 1000, dpar1 = 10947 / 100, dpar2 = 3851 / 1000,
     dpar3 = 105 / 1000, dpar4 = 1273 / 100, dpar5 = 1912 / 1000, dpar6 = 2119 / 1000, dpar7 = 2,
     dpar8 = 5343 / 1000, dpar9 = 5063 / 1000, dpar10 = 759 / 1000, ipar0 = 3\<rparr>"

definition uff0 :: OBForceFieldUFF where
  "uff0 = \<lparr>ffparams = [H_param, C_3_param], HasGroups = False, intraGroup = [],
     interGroup = [], interGroups = [],
     m_terms = {BondTerm, AngleTerm, TorsionTerm, OOPTerm, VDWTerm, EleTerm},
     IsCutOffEnabled = False, VDWPairs = {}, ElePairs = {},
     bondcalculations = [], anglecalculations = [], torsioncalculations = [],
     oopcalculations = [], vdwcalculations = [], electrostaticcalculations = []\<rparr>"

definition uff_grouped :: OBForceFieldUFF where
  \<comment> \<open>one intra-group, the atoms 1 and 2\<close>
  "uff_grouped = uff0\<lparr>HasGroups := True, intraGroup := [{1, 2}]\<rparr>"

definition single_bond :: "nat \<Rightarrow> nat \<Rightarrow> OBBond" where
  "single_bond a b =
     \<lparr>BeginAtom = a, EndAtom = b, BondOrder = 1, IsAromatic = False, IsAmide = False\<rparr>"

definition hydrogen :: OBAtom where
  "hydrogen = \<lparr>Type = ''H_'', AtomicNum = 1, PartialCharge = 0\<rparr>"

definition nitrogen :: OBAtom where
  "nitrogen = \<lparr>Type = ''N_3'', AtomicNum = 7, PartialCharge = 0\<rparr>"

definition helium_atom :: OBAtom where
  \<comment> \<open>an atom of a type that the table above does not have\<close>
  "helium_atom = \<lparr>Type = ''He4+4'', AtomicNum = 2, PartialCharge = 0\<rparr>"

definition helium :: OBMol where
  "helium = \<lparr>atoms = [helium_atom], bonds = [], angles = [], torsions = [], pairs = []\<rparr>"

definition helium_hydride :: OBMol where
  "helium_hydride = \<lparr>atoms = [helium_atom, hydrogen], bonds = [single_bond 1 2],
     angles = [], torsions = [], pairs = []\<rparr>"

definition chain4 :: OBMol where
  \<comment> \<open>four sp3 carbons in a chain 1-2-3-4, with all six pairs of atoms enumerated\<close>
  "chain4 = \<lparr>atoms = [\<lparr>Type = ''C_3'', AtomicNum = 6, PartialCharge = 1 / 10\<rparr>,
                       \<lparr>Type = ''C_3'', AtomicNum = 6, PartialCharge = - (1 / 10)\<rparr>,
                       \<lparr>Type = ''C_3'', AtomicNum = 6, PartialCharge = - (1 / 10)\<rparr>,
                       \<lparr>Type = ''C_3'', AtomicNum = 6, PartialCharge = 1 / 10\<rparr>],
     bonds = [single_bond 1 2, single_bond 2 3, single_bond 3 4],
     angles = [(1, 0, 2), (2, 1, 3)],
     torsions = [(0, 1, 2, 3)],
     pairs = [(1, 2), (1, 3), (1, 4), (2, 3), (2, 4), (3, 4)]\<rparr>"

definition azanide :: OBMol where
  \<comment> \<open>a nitrogen of type \<^verbatim>\<open>N_3\<close> with two hydrogen neighbours\<close>
  "azanide = \<lparr>atoms = [nitrogen, hydrogen, hydrogen],
     bonds = [single_bond 1 2, single_bond 1 3],
     angles = [], torsions = [], pairs = []\<rparr>"

definition ammonia :: OBMol where
  \<comment> \<open>a nitrogen of type \<^verbatim>\<open>N_3\<close> with three hydrogen neighbours\<close>
  "ammonia = \<lparr>atoms = [nitrogen, hydrogen, hydrogen, hydrogen],
     bonds = [single_bond 1 2, single_bond 1 3, single_bond 1 4],
     angles = [], torsions = [], pairs = []\<rparr>"

definition ammonium :: OBMol where
  \<comment> \<open>a nitrogen of type \<^verbatim>\<open>N_3\<close> with four hydrogen neighbours\<close>
  "ammonium = \<lparr>atoms = [nitrogen, hydrogen, hydrogen, hydrogen, hydrogen],
     bonds = [single_bond 1 2, single_bond 1 3, single_bond 1 4, single_bond 1 5],
     angles = [], torsions = [], pairs = []\<rparr>"

definition vm_nonfinite :: vectormath where
  \<comment> \<open>helpers that return a value that is not finite for every angle, as for a degenerate
      geometry\<close>
  "vm_nonfinite = \<lparr>VectorBondDerivative = (\<lambda>a b. norm3 (vsub a b)),
     VectorDistanceDerivative = (\<lambda>a b. norm3 (vsub a b)),
     VectorAngle = (\<lambda>a b. NonFinite),
     VectorAngleDerivative = (\<lambda>a b c. NonFinite),
     VectorTorsionDerivative = (\<lambda>a b c d. NonFinite),
     VectorOOP = (\<lambda>a b c d. NonFinite),
     VectorOOPDerivative = (\<lambda>a b c d. NonFinite),
     acos_quotient = (\<lambda>x y. NonFinite)\<rparr>"

definition square_positions :: "Vector3d list" where
  \<comment> \<open>four atoms on the corners of a square\<close>
  "square_positions = [Vec 1 0 0, Vec 0 0 0, Vec 0 1 0, Vec 1 1 0]"

definition example_angle :: OBFFAngleCalculationUFF where
  "example_angle = \<lparr>angle_a = 1, angle_b = 2, angle_c = 3, angle_coord = 3, angle_zi = 1,
     angle_zk = 1, angle_theta0 = 10947 / 100, angle_cosT0 = - (1 / 3), angle_c0 = 11 / 32,
     angle_c1 = 3 / 8, angle_c2 = 9 / 32, angle_ka = 100\<rparr>"

definition example_torsion :: OBFFTorsionCalculationUFF where
  "example_torsion = \<lparr>tor_a = 1, tor_b = 2, tor_c = 3, tor_d = 4, tor_tt = 1, tor_V = 4,
     tor_n = 3, tor_cosNPhi0 = - 1\<rparr>"

definition example_oop :: OBFFOOPCalculationUFF where
  "example_oop = \<lparr>oop_a = 1, oop_b = 2, oop_c = 3, oop_d = 4, oop_c0 = 1, oop_c1 = - 1,
     oop_c2 = 0, oop_koop = 2\<rparr>"

definition uff_lists :: OBForceFieldUFF where
  \<comment> \<open>a force field with one angle, one torsion and one out-of-plane record\<close>
  "uff_lists = uff0\<lparr>anglecalculations := [example_angle],
     torsioncalculations := [example_torsion], oopcalculations := [example_oop]\<rparr>"

definition cg_function :: OBFunction where
  \<comment> \<open>two atoms and their gradients\<close>
  "cg_function = \<lparr>m_positions = [Vec 0 0 0, Vec 1 0 0], m_gradients = [Vec 2 0 0, Vec 0 3 0]\<rparr>"

definition cg_private :: "nat \<Rightarrow> OBMinimizePrivate" where
  \<comment> \<open>the state of the minimizer after the given number of steps\<close>
  "cg_private n = \<lparr>d_econv = 1 / 1000000, d_e_n1 = 0, d_cstep = n, d_nsteps = 100,
     d_grad1 = [Vec 1 0 0, Vec 0 1 0], d_linesearch = Simple\<rparr>"

definition slope_energy :: "Vector3d list \<Rightarrow> real" where
  \<comment> \<open>an energy function for the examples: a gentle slope along x\<close>
  "slope_energy ps = sum_list (map vx ps) / 1000"

section \<open>The line searches and the starting energy\<close>

lemma LineSearch_loop_energy:
  "e_n1 \<le> e0 \<Longrightarrow> E cur = e_n1 \<Longrightarrow> LineSearch_loop E dir k cur e_n1 step alpha = (cur', a)
     \<Longrightarrow> E cur' < e0 + 1 / 1000"
proof (induction k arbitrary: cur e_n1 step alpha)
  case 0
  then show ?case by simp
next
  case (Suc k)
  let ?moved = "LineSearch_move cur dir step"
  show ?case
  proof (cases "IsNear (E ?moved) e_n1 (1 / 1000)")
    case True
    then have "\<bar>E ?moved - e_n1\<bar> < 1 / 1000" by (simp only: IsNear_def)
    moreover from True Suc.prems(3) have "cur' = ?moved" by (simp add: Let_def)
    ultimately have "\<bar>E cur' - e_n1\<bar> < 1 / 1000" by simp
    with Suc.prems(1) show ?thesis by linarith
  next
    case False
    note nn = False
    consider (up) "E ?moved > e_n1" | (down) "E ?moved < e_n1" | (eq) "E ?moved = e_n1"
      by linarith
    then show ?thesis
    proof cases
      case up
      with nn Suc.prems(3)
      have "LineSearch_loop E dir k cur e_n1 (step * (1 / 10)) alpha = (cur', a)"
        by (simp add: Let_def)
      from Suc.IH[OF Suc.prems(1) Suc.prems(2) this] show ?thesis .
    next
      case down
      with nn Suc.prems(3) have "LineSearch_loop E dir k ?moved (E ?moved)
             (if step * (215 / 100) > 1 then 1 else step * (215 / 100)) (alpha + step) = (cur', a)"
        by (simp add: Let_def)
      moreover have "E ?moved \<le> e0" using down Suc.prems(1) by linarith
      ultimately show ?thesis using Suc.IH[of "E ?moved" ?moved] by blast
    next
      case eq
      with nn show ?thesis by (simp add: IsNear_def)
    qed
  qed
qed

lemma Newton_loop_inv:
  "opt_e \<le> e0 \<Longrightarrow> (opt_step \<noteq> 0 \<longrightarrow> E (LineSearchTakeStep orig dir opt_step) = opt_e)
    \<Longrightarrow> Newton_loop E orig dir max_scl newton step opt_step opt_e = (os, oe)
    \<Longrightarrow> oe \<le> e0 \<and> (os \<noteq> 0 \<longrightarrow> E (LineSearchTakeStep orig dir os) = oe)"
proof (induction E orig dir max_scl newton step opt_step opt_e rule: Newton_loop.induct)
  case (1 E orig dir max_scl newton step opt_step opt_e)
  define e_n1 where "e_n1 = E (LineSearchTakeStep orig dir step)"
  define opt_step' where "opt_step' = (if e_n1 < opt_e then step else opt_step)"
  define opt_e' where "opt_e' = (if e_n1 < opt_e then e_n1 else opt_e)"
  define delta where "delta = step * (1 / 1000)"
  define e_n2 where "e_n2 = E (LineSearchTakeStep orig dir (step + delta))"
  define e_n3 where "e_n3 = E (LineSearchTakeStep orig dir (step + delta * 2))"
  define denom where "denom = e_n3 - 2 * e_n2 + e_n1"
  define newstep where "newstep = \<bar>step - delta * (e_n2 - e_n1) / denom\<bar>"
  note defs = e_n1_def opt_step'_def opt_e'_def delta_def e_n2_def e_n3_def denom_def newstep_def
  have unf: "Newton_loop E orig dir max_scl newton step opt_step opt_e =
     (if newton > 3 then (opt_step', opt_e')
      else if denom \<noteq> 0 then
        Newton_loop E orig dir max_scl (newton + 1)
          (if newstep > max_scl then max_scl else newstep) opt_step' opt_e'
      else (opt_step', opt_e'))"
    by (subst Newton_loop.simps) (simp only: Let_def defs)
  have res: "(if newton > 3 then (opt_step', opt_e')
      else if denom \<noteq> 0 then
        Newton_loop E orig dir max_scl (newton + 1)
          (if newstep > max_scl then max_scl else newstep) opt_step' opt_e'
      else (opt_step', opt_e')) = (os, oe)"
    using "1.prems"(3) unfolding unf .
  have inv1: "opt_e' \<le> e0" using "1.prems"(1) by (simp add: opt_e'_def)
  have inv2: "opt_step' \<noteq> 0 \<longrightarrow> E (LineSearchTakeStep orig dir opt_step') = opt_e'"
    using "1.prems"(2) by (simp add: opt_step'_def opt_e'_def e_n1_def)
  show ?case
  proof (cases "newton > 3 \<or> denom = 0")
    case True
    with res have "os = opt_step'" "oe = opt_e'" by (auto split: if_splits)
    with inv1 inv2 show ?thesis by simp
  next
    case False
    with res have rec: "Newton_loop E orig dir max_scl (newton + 1)
          (if newstep > max_scl then max_scl else newstep) opt_step' opt_e' = (os, oe)"
      by (simp split: if_splits)
    from False have c: "\<not> 3 < newton" "denom \<noteq> 0" by auto
    show ?thesis
      by (rule "1.IH"[OF e_n1_def opt_step'_def opt_e'_def delta_def e_n2_def e_n3_def
            denom_def newstep_def c inv1 inv2 rec])
  qed
qed

lemma LineSearchTakeStep_zero:
  "length dir \<le> length orig \<Longrightarrow> LineSearchTakeStep orig dir 0 = orig"
proof (induction orig arbitrary: dir)
  case Nil
  then show ?case by (simp add: LineSearchTakeStep_def)
next
  case (Cons p ps)
  show ?case
  proof (cases dir)
    case Nil
    then show ?thesis by (simp add: LineSearchTakeStep_def)
  next
    case (Cons d ds)
    with Cons.prems have "length ds \<le> length ps" by simp
    from Cons.IH[OF this] have "LineSearchTakeStep ps ds 0 = ps" .
    moreover have "vadd p (smul d 0) = p" by (cases p; cases d) simp
    ultimately show ?thesis using Cons by (simp add: LineSearchTakeStep_def)
  qed
qed

lemma LineSearch_slope_uphill:
  "LineSearch slope_energy [Vec 0 0 0] [Vec 1 0 0] = Inr ([Vec (1 / 5) 0 0], 0)"
  by (simp add: LineSearch_def numeral_nat LineSearch_move_def tempStep_def squaredNorm_def
      trustRadius2_def Let_def slope_energy_def IsNear_def)

text \<open>
  C1, as stated, fails for \<^verbatim>\<open>LineSearch\<close>: on a slope of 0.001 per unit length with the
  direction pointing uphill, the first trial moves the atom by 0.2, the energy rises from
  0 to 0.0002, the test \<^verbatim>\<open>IsNear(e_n2, e_n1, 1.0e-3)\<close> ends the search, and the atom
  stays at the trial position.
\<close>

theorem LineSearch_energy_counterexample:
  "LineSearch slope_energy [Vec 0 0 0] [Vec 1 0 0] = Inr ([Vec (1 / 5) 0 0], 0)
   \<and> slope_energy [Vec (1 / 5) 0 0] > slope_energy [Vec 0 0 0]"
  using LineSearch_slope_uphill by (simp add: slope_energy_def)

lemma Newton2Num_result:
  assumes "Newton2NumLineSearch E e0 pos dir = Inr (moved, alpha)"
  shows "\<exists>max_scl step0 small os oe.
           Newton_loop E pos dir max_scl 0 step0 0 e0 = (os, oe)
           \<and> length dir \<le> length pos
           \<and> moved = LineSearchTakeStep pos dir
                (if os = 0 \<and> E (LineSearchTakeStep pos dir small) < oe then small else os)"
proof -
  from assms have len: "length dir \<le> length pos"
    by (simp add: Newton2NumLineSearch_def split: if_splits)
  show ?thesis
    using assms len
    unfolding Newton2NumLineSearch_def Let_def
    by (simp only: split_beta if_not_P[OF leD] sum.inject prod.inject not_less)
       (metis prod.collapse)
qed

lemma Newton_slope_downhill:
  "Newton2NumLineSearch slope_energy (slope_energy [Vec 0 0 0]) [Vec 0 0 0] [Vec (- 1) 0 0]
     = Inr ([Vec (- (1 / 40)) 0 0], 1 / 40)"
  by (simp add: Newton2NumLineSearch_def Let_def squaredNorm_def IsNearZero_default_def
      IsNearZero_def Newton_loop.simps[of _ _ _ _ 0] LineSearchTakeStep_def slope_energy_def)

text \<open>
  \<^verbatim>\<open>Newton2NumLineSearch\<close> compares its trials with the stored energy \<^verbatim>\<open>d->e_n1\<close>, not
  with the energy of the positions it starts from. The two agree after
  \<^verbatim>\<open>SteepestDescentInitialize\<close> and after every pass of the loops that ends in
  \<^verbatim>\<open>d->e_n1 = e_n2\<close>. With a stored energy above the energy of the start, an uphill trial
  below the stored energy is taken.
\<close>

lemma Newton_stale_energy:
  "Newton2NumLineSearch slope_energy 1 [Vec 0 0 0] [Vec 1 0 0] = Inr ([Vec (1 / 40) 0 0], 1 / 40)
   \<and> slope_energy [Vec (1 / 40) 0 0] > slope_energy [Vec 0 0 0]"
  by (simp add: Newton2NumLineSearch_def Let_def squaredNorm_def IsNearZero_default_def
      IsNearZero_def Newton_loop.simps[of _ _ _ _ 0] LineSearchTakeStep_def slope_energy_def)

text \<open>
  C1, amended: \<^verbatim>\<open>LineSearch\<close> leaves positions whose energy is below the starting energy
  plus the tolerance 0.001 of its convergence test; \<^verbatim>\<open>Newton2NumLineSearch\<close>, called with
  the stored energy \<^verbatim>\<open>d->e_n1\<close> equal to the energy of the starting positions, leaves
  positions whose energy is at most the starting energy.
\<close>

theorem line_search_energy_bound:
  "(LineSearch E currentCoords direction = Inr (moved, alpha)
      \<longrightarrow> E moved < E currentCoords + 1 / 1000)
   \<and> (Newton2NumLineSearch E (E positions) positions direction' = Inr (moved', alpha')
      \<longrightarrow> E moved' \<le> E positions)"
proof (intro conjI impI)
  assume "LineSearch E currentCoords direction = Inr (moved, alpha)"
  then have "LineSearch_loop E direction 10 currentCoords (E currentCoords) (2 / 10) 0
               = (moved, alpha)"
    by (simp add: LineSearch_def split: if_splits)
  from LineSearch_loop_energy[OF order_refl refl this]
  show "E moved < E currentCoords + 1 / 1000" .
next
  assume a: "Newton2NumLineSearch E (E positions) positions direction' = Inr (moved', alpha')"
  from Newton2Num_result[OF a] obtain max_scl step0 small os oe where
    r: "Newton_loop E positions direction' max_scl 0 step0 0 (E positions) = (os, oe)"
    and len: "length direction' \<le> length positions"
    and moved: "moved' = LineSearchTakeStep positions direction'
                (if os = 0 \<and> E (LineSearchTakeStep positions direction' small) < oe
                 then small else os)"
    by blast
  from Newton_loop_inv[OF order_refl _ r]
  have inv: "oe \<le> E positions"
    "os \<noteq> 0 \<longrightarrow> E (LineSearchTakeStep positions direction' os) = oe"
    by simp_all
  show "E moved' \<le> E positions"
  proof (cases "os = 0")
    case True
    show ?thesis
    proof (cases "E (LineSearchTakeStep positions direction' small) < oe")
      case True
      with \<open>os = 0\<close> moved inv(1) show ?thesis by simp
    next
      case False
      with \<open>os = 0\<close> moved LineSearchTakeStep_zero[OF len] show ?thesis by simp
    qed
  next
    case False
    with moved inv show ?thesis by simp
  qed
qed

theorem line_search_energy_bound_witness:
  "LineSearch slope_energy [Vec 0 0 0] [Vec 1 0 0] = Inr ([Vec (1 / 5) 0 0], 0)
   \<and> slope_energy [Vec (1 / 5) 0 0] < slope_energy [Vec 0 0 0] + 1 / 1000
   \<and> Newton2NumLineSearch slope_energy (slope_energy [Vec 0 0 0]) [Vec 0 0 0] [Vec (- 1) 0 0]
       = Inr ([Vec (- (1 / 40)) 0 0], 1 / 40)
   \<and> slope_energy [Vec (- (1 / 40)) 0 0] \<le> slope_energy [Vec 0 0 0]"
  using line_search_energy_bound[where E = slope_energy and currentCoords = "[Vec 0 0 0]"
      and direction = "[Vec 1 0 0]" and moved = "[Vec (1 / 5) 0 0]" and alpha = 0
      and positions = "[Vec 0 0 0]" and direction' = "[Vec (- 1) 0 0]"
      and moved' = "[Vec (- (1 / 40)) 0 0]" and alpha' = "1 / 40"]
    LineSearch_slope_uphill Newton_slope_downhill
  by simp

section \<open>The trust radius of LineSearch\<close>

lemma sqrt_4_25: "sqrt (4 / 25) = 2 / 5"
  by (rule real_sqrt_unique) (simp_all add: power2_eq_square)

text \<open>
  C3 at a failing input: for the direction (2, 0, 0) the first trial of \<^verbatim>\<open>LineSearch\<close>
  (step 0.2) proposes the displacement (0.4, 0, 0). Its squared norm 0.16 is not above
  \<^verbatim>\<open>trustRadius2 = 0.9\<close>, so it is added as it is, and its norm 0.4 is above the trust
  radius 0.3.
\<close>

theorem LineSearch_displacement_above_trustRadius:
  "LineSearch_move [Vec 0 0 0] [Vec 2 0 0] (2 / 10) = [Vec (4 / 10) 0 0]
   \<and> tempStep (Vec 2 0 0) (2 / 10) = Vec (4 / 10) 0 0
   \<and> trustRadius < norm3 (tempStep (Vec 2 0 0) (2 / 10))"
  by (simp add: LineSearch_move_def tempStep_def squaredNorm_def trustRadius2_def Let_def
      norm3_def trustRadius_def sqrt_4_25)

section \<open>Evaluation of the examples\<close>

lemmas mol_defs = chain4_def helium_def helium_hydride_def azanide_def ammonia_def ammonium_def
  single_bond_def hydrogen_def nitrogen_def helium_atom_def

lemmas ff_defs = uff0_def uff_grouped_def H_param_def C_3_param_def

lemmas graph_defs = GetAtom_def GetBond_def bonds_of_def nbors_def GetNbrAtom_def IsConnected_def
  IsOneThree_def

lemmas oop_defs = SetupOOP_def oop_element_def oop_N_O_type_def oop_P_type_def oop_C_type_def
  EQn_def oop_constants_def in_one_group_def

lemma SetupCalculations_Some:
  "SetupCalculations ff mol t0 = Some (r, ff1) \<longleftrightarrow>
     (\<exists>bs as ts os vs.
        collect (SetupBond ff mol) (bonds mol) = Some bs
        \<and> collect (SetupAngle ff mol) (angles mol) = Some as
        \<and> SetupTorsions ff mol (torsions mol) t0 = Some ts
        \<and> collect (SetupOOP ff mol) [1 ..< Suc (length (atoms mol))] = Some os
        \<and> collect (SetupVDW ff mol) (pairs mol) = Some vs
        \<and> r = True
        \<and> ff1 = ff\<lparr>bondcalculations := bs, anglecalculations := as,
                    torsioncalculations := ts, oopcalculations := os,
                    vdwcalculations := vs\<rparr>)"
  by (auto simp: SetupCalculations_def split: Option.bind_splits)

lemma SetupElectrostatics_Some:
  "SetupElectrostatics ff mol = Some (r, ff1) \<longleftrightarrow>
     (\<exists>es. collect (SetupEle ff mol) (pairs mol) = Some es \<and> r = True
           \<and> ff1 = ff\<lparr>electrostaticcalculations := es\<rparr>)"
  by (auto simp: SetupElectrostatics_def split: Option.bind_splits)

lemma helium_setup: "SetupCalculations uff0 helium (0, 0, 0) = Some (True, uff0)"
  by (simp add: SetupCalculations_def mol_defs ff_defs SetupOOP_def graph_defs oop_element_def)

lemma helium_hydride_setup: "SetupCalculations uff0 helium_hydride (0, 0, 0) = None"
  by (simp add: SetupCalculations_def SetupBond_def mol_defs ff_defs graph_defs)

lemma ammonium_oop:
  "map_option (map (\<lambda>r. (oop_a r, oop_b r, oop_c r, oop_d r))) (SetupOOP uff0 ammonium 1)
   = Some [(2, 1, 3, 5), (5, 1, 3, 2), (2, 1, 5, 3)]"
  by (simp add: mol_defs ff_defs graph_defs oop_defs Let_def)

lemma ammonia_oop:
  "map_option (map (\<lambda>r. (oop_a r, oop_b r, oop_c r, oop_d r))) (SetupOOP uff0 ammonia 1)
   = Some [(2, 1, 3, 4), (4, 1, 3, 2), (2, 1, 4, 3)]"
  by (simp add: mol_defs ff_defs graph_defs oop_defs Let_def)

lemma ammonia_grouped_oop: "SetupOOP uff_grouped ammonia 1 = Some []"
  by (simp add: mol_defs ff_defs graph_defs oop_defs Let_def)

lemma azanide_oop: "SetupOOP uff0 azanide 1 = Some []"
  by (simp add: mol_defs ff_defs graph_defs oop_defs Let_def)

lemma nitrogen_whitelisted:
  "oop_element (AtomicNum nitrogen) \<and> oop_N_O_type (Type nitrogen)"
  by (simp add: nitrogen_def oop_element_def oop_N_O_type_def EQn_def)

lemma chain_vdw: "map_option (map (\<lambda>r. (vdw_a r, vdw_b r))) (collect (SetupVDW uff0 chain4) (pairs chain4)) = Some [(1, 4)]"
  by (simp add: SetupVDW_def mol_defs ff_defs graph_defs Let_def)

lemma sqrt_Vi: "sqrt (4490161 / 1000000) = 2119 / 1000"
  by (rule real_sqrt_unique) (simp_all add: power2_eq_square)

lemma chain_tor: "SetupTorsion uff0 chain4 (0, 1, 2, 3) (0, 0, 0) =
   Some ((60, 3, (1 / 2) * KCAL_TO_KJ * (2119 / 1000)),
     [\<lparr>tor_a = 1, tor_b = 2, tor_c = 3, tor_d = 4, tor_tt = 1,
       tor_V = (1 / 2) * KCAL_TO_KJ * (2119 / 1000), tor_n = 3, tor_cosNPhi0 = - 1\<rparr>])"
  by (simp add: SetupTorsion_def mol_defs ff_defs graph_defs Let_def torsion_table_def chalcogen_def
      bondorder_of_def sqrt_Vi IsNearZero_default_def IsNearZero_def KCAL_TO_KJ_def DEG_TO_RAD_def)

lemma chain_bonds: "\<exists>bs. collect (SetupBond uff0 chain4) (bonds chain4) = Some bs"
  by (simp add: SetupBond_def mol_defs ff_defs graph_defs Let_def)

lemma chain_angles: "\<exists>as. collect (SetupAngle uff0 chain4) (angles chain4) = Some as"
  by (simp add: SetupAngle_def mol_defs ff_defs graph_defs Let_def)

lemma chain_torsions: "\<exists>ts. SetupTorsions uff0 chain4 (torsions chain4) (0, 0, 0) = Some ts"
proof -
  have "torsions chain4 = [(0, 1, 2, 3)]" by (simp add: chain4_def)
  with chain_tor show ?thesis by simp
qed

lemma chain_oops: "collect (SetupOOP uff0 chain4) [1 ..< Suc (length (atoms chain4))] = Some []"
  by (simp add: mol_defs ff_defs graph_defs oop_defs Let_def upt_rec)

lemma chain_setup:
  "\<exists>ff1. SetupCalculations uff0 chain4 (0, 0, 0) = Some (True, ff1)
     \<and> map (\<lambda>r. (vdw_a r, vdw_b r)) (vdwcalculations ff1) = [(1, 4)]
     \<and> HasGroups ff1 = HasGroups uff0 \<and> interGroup ff1 = interGroup uff0
     \<and> interGroups ff1 = interGroups uff0"
proof -
  from chain_bonds obtain bs where 1: "collect (SetupBond uff0 chain4) (bonds chain4) = Some bs" ..
  from chain_angles obtain as where 2: "collect (SetupAngle uff0 chain4) (angles chain4) = Some as" ..
  from chain_torsions obtain ts where 3: "SetupTorsions uff0 chain4 (torsions chain4) (0, 0, 0) = Some ts" ..
  from chain_vdw obtain vs where 5: "collect (SetupVDW uff0 chain4) (pairs chain4) = Some vs"
    and v: "map (\<lambda>r. (vdw_a r, vdw_b r)) vs = [(1, 4)]" by auto
  show ?thesis
    using 1 2 3 chain_oops 5 v by (simp add: SetupCalculations_Some)
qed

lemma SetupEle_cong:
  "HasGroups ff1 = HasGroups ff \<Longrightarrow> interGroup ff1 = interGroup ff
     \<Longrightarrow> interGroups ff1 = interGroups ff \<Longrightarrow> SetupEle ff1 mol = SetupEle ff mol"
  by (intro ext) (simp add: SetupEle_def valid_pair_def)

lemma chain_ele: "map_option (map (\<lambda>r. (ele_a r, ele_b r))) (collect (SetupEle uff0 chain4) (pairs chain4)) = Some [(1, 4)]"
  by (simp add: SetupEle_def mol_defs ff_defs graph_defs KCAL_TO_KJ_def Let_def)

lemma chain4_14: "\<not> bonded chain4 1 4 \<and> \<not> one_three chain4 1 4"
  by (auto simp: bonded_def one_three_def mol_defs doubleton_eq_iff)

section \<open>Missing parameters\<close>

lemma GetParameterUFF_None: "GetParameterUFF a parameter = None \<longleftrightarrow> a \<notin> par_a ` set parameter"
  by (induction parameter) auto

text \<open>
  C2, as stated, fails: the table of \<open>uff0\<close> has no entry for the type of the helium atom,
  and \<^verbatim>\<open>SetupCalculations\<close> returns true for the molecule made of that atom alone (no
  loop looks its parameter up). With a bond to the atom the lookup result is dereferenced
  where it is null: the call has no return value, and in particular does not return false.
\<close>

theorem missing_parameter_counterexample:
  "GetParameterUFF (Type helium_atom) (ffparams uff0) = None
   \<and> SetupCalculations uff0 helium (0, 0, 0) = Some (True, uff0)
   \<and> SetupCalculations uff0 helium_hydride (0, 0, 0) = None"
  using helium_setup helium_hydride_setup by (simp add: ff_defs mol_defs)

text \<open>
  C2, amended: \<^verbatim>\<open>GetParameterUFF\<close> returns no parameter exactly for the type strings that
  have no entry in the table; \<^verbatim>\<open>SetupCalculations\<close> does not test the result of the lookup
  and has no failing return: whenever it returns, it returns true.
\<close>

theorem missing_parameter_lookup_and_setup:
  "(GetParameterUFF a parameter = None \<longleftrightarrow> a \<notin> par_a ` set parameter)
   \<and> (SetupCalculations ff mol t0 = Some (r, ff') \<longrightarrow> r = True)"
proof (intro conjI impI)
  show "GetParameterUFF a parameter = None \<longleftrightarrow> a \<notin> par_a ` set parameter"
    by (rule GetParameterUFF_None)
next
  assume "SetupCalculations ff mol t0 = Some (r, ff')"
  then show "r = True" unfolding SetupCalculations_Some by blast
qed

theorem missing_parameter_lookup_and_setup_witness:
  "GetParameterUFF ''He4+4'' (ffparams uff0) = None
   \<and> ''He4+4'' \<notin> par_a ` set (ffparams uff0)
   \<and> map_option fst (SetupCalculations uff0 chain4 (0, 0, 0)) = Some True"
proof -
  from chain_setup obtain ff1 where s1: "SetupCalculations uff0 chain4 (0, 0, 0) = Some (True, ff1)"
    by (elim exE conjE)
  have n: "''He4+4'' \<notin> par_a ` set (ffparams uff0)" by (simp add: ff_defs)
  from missing_parameter_lookup_and_setup[of "''He4+4''" "ffparams uff0" uff0 chain4 "(0, 0, 0)" True ff1]
    s1 n
  show ?thesis by simp
qed

section \<open>Out-of-plane records\<close>

text \<open>
  C4, as stated, fails in two ways. The nitrogen of ammonium passes the whitelist and has
  four neighbours, and three records are built for it, from the first, the second and the
  last neighbour. The nitrogen of ammonia has exactly three neighbours, and no record is
  built for it when groups are in use and no intra-group holds the four atoms.
\<close>

theorem SetupOOP_counterexample:
  "GetAtom ammonium 1 = Some nitrogen \<and> GetAtom ammonia 1 = Some nitrogen
   \<and> oop_element (AtomicNum nitrogen) \<and> oop_N_O_type (Type nitrogen)
   \<and> nbors ammonium 1 = [2, 3, 4, 5]
   \<and> map_option (map (\<lambda>r. (oop_a r, oop_b r, oop_c r, oop_d r))) (SetupOOP uff0 ammonium 1)
       = Some [(2, 1, 3, 5), (5, 1, 3, 2), (2, 1, 5, 3)]
   \<and> nbors ammonia 1 = [2, 3, 4]
   \<and> SetupOOP uff_grouped ammonia 1 = Some []"
  using ammonium_oop ammonia_grouped_oop nitrogen_whitelisted
  by (simp add: mol_defs graph_defs)

text \<open>
  C4, amended: for every atom \<open>b\<close> whose element and type pass the out-of-plane whitelist,
  fewer than three bonded neighbours give no OOP record; exactly three neighbours
  \<open>a\<close>, \<open>c\<close>, \<open>d\<close> give exactly the three records \<open>(a, b, c, d)\<close>, \<open>(d, b, c, a)\<close>,
  \<open>(a, b, d, c)\<close>, one per choice of the wing atom (the last one of a record), unless groups
  are in use and no intra-group holds the four atoms, in which case they give none.
\<close>

theorem SetupOOP_records:
  assumes "GetAtom mol b = Some atomB"
    and "oop_element (AtomicNum atomB)"
    and "oop_N_O_type (Type atomB) \<or> oop_P_type (Type atomB) \<or> oop_C_type (Type atomB)"
    and "SetupOOP ff mol b = Some recs"
  shows "(length (nbors mol b) < 3 \<longrightarrow> recs = [])
         \<and> (nbors mol b = [a, c, d] \<longrightarrow>
              (if HasGroups ff \<and> \<not> in_one_group (intraGroup ff) [a, b, c, d] then recs = []
               else map (\<lambda>r. (oop_a r, oop_b r, oop_c r, oop_d r)) recs
                      = [(a, b, c, d), (d, b, c, a), (a, b, d, c)]))"
proof (intro conjI impI)
  assume "length (nbors mol b) < 3"
  then have "(case nbors mol b of a # c # d0 # rest \<Rightarrow> False | _ \<Rightarrow> True)"
    by (auto split: list.splits)
  with assms show "recs = []"
    by (auto simp: SetupOOP_def split: list.splits)
next
  assume n: "nbors mol b = [a, c, d]"
  show "if HasGroups ff \<and> \<not> in_one_group (intraGroup ff) [a, b, c, d] then recs = []
        else map (\<lambda>r. (oop_a r, oop_b r, oop_c r, oop_d r)) recs
               = [(a, b, c, d), (d, b, c, a), (a, b, d, c)]"
    using assms n
    by (auto simp: SetupOOP_def Let_def split: Option.bind_splits prod.splits if_splits)
qed

theorem SetupOOP_records_witness:
  "SetupOOP uff0 azanide 1 = Some []
   \<and> map_option (map (\<lambda>r. (oop_a r, oop_b r, oop_c r, oop_d r))) (SetupOOP uff0 ammonia 1)
       = Some [(2, 1, 3, 4), (4, 1, 3, 2), (2, 1, 4, 3)]"
proof -
  have w: "oop_element (AtomicNum nitrogen)"
    "oop_N_O_type (Type nitrogen) \<or> oop_P_type (Type nitrogen) \<or> oop_C_type (Type nitrogen)"
    using nitrogen_whitelisted by simp_all
  have g2: "GetAtom azanide 1 = Some nitrogen" by (simp add: mol_defs graph_defs)
  have g3: "GetAtom ammonia 1 = Some nitrogen" by (simp add: mol_defs graph_defs)
  have n2: "length (nbors azanide 1) < 3" by (simp add: mol_defs graph_defs)
  have n3: "nbors ammonia 1 = [2, 3, 4]" by (simp add: mol_defs graph_defs)
  have ng: "\<not> HasGroups uff0" by (simp add: ff_defs)
  from azanide_oop SetupOOP_records[OF g2 w azanide_oop] n2
  have 1: "SetupOOP uff0 azanide 1 = Some []" by simp
  from ammonia_oop obtain recs where r: "SetupOOP uff0 ammonia 1 = Some recs" by auto
  from SetupOOP_records[OF g3 w r, of 2 3 4] n3 ng
  have "map (\<lambda>r. (oop_a r, oop_b r, oop_c r, oop_d r)) recs = [(2, 1, 3, 4), (4, 1, 3, 2), (2, 1, 4, 3)]"
    by simp
  with r 1 show ?thesis by simp
qed

section \<open>Non-bonded pairs\<close>

lemma collect_mem:
  "collect f xs = Some ys \<Longrightarrow> y \<in> set ys \<Longrightarrow> \<exists>x \<in> set xs. \<exists>zs. f x = Some zs \<and> y \<in> set zs"
proof (induction xs arbitrary: ys)
  case Nil
  then show ?case by simp
next
  case (Cons x xs)
  from Cons.prems(1) obtain zs1 zs2 where
    f: "f x = Some zs1" and c: "collect f xs = Some zs2" and ys: "ys = zs1 @ zs2"
    by (auto split: Option.bind_splits)
  from Cons.prems(2) ys consider "y \<in> set zs1" | "y \<in> set zs2" by auto
  then show ?case
  proof cases
    case 1
    with f show ?thesis by auto
  next
    case 2
    from Cons.IH[OF c 2] show ?thesis by auto
  qed
qed

lemma bonded_IsConnected: "bonded mol a b \<Longrightarrow> IsConnected mol a b"
  unfolding bonded_def IsConnected_def bonds_of_def list_ex_iff
  by (auto simp: doubleton_eq_iff)

lemma bonded_GetNbrAtom:
  "{BeginAtom bd, EndAtom bd} = {a, v} \<Longrightarrow> GetNbrAtom bd a = v"
  by (auto simp: GetNbrAtom_def doubleton_eq_iff)

lemma one_three_IsOneThree: "one_three mol a b \<Longrightarrow> IsOneThree mol a b"
proof -
  assume "one_three mol a b"
  then obtain v bd1 bd2 where
    b1: "bd1 \<in> set (bonds mol)" "{BeginAtom bd1, EndAtom bd1} = {a, v}" and
    b2: "bd2 \<in> set (bonds mol)" "{BeginAtom bd2, EndAtom bd2} = {v, b}"
    unfolding one_three_def bonded_def by blast
  from b2(2) have b2': "{BeginAtom bd2, EndAtom bd2} = {b, v}" by auto
  have "bd1 \<in> set (bonds_of mol a)" using b1 by (auto simp: bonds_of_def doubleton_eq_iff)
  moreover have "bd2 \<in> set (bonds_of mol b)" using b2 by (auto simp: bonds_of_def doubleton_eq_iff)
  moreover have "GetNbrAtom bd1 a = GetNbrAtom bd2 b"
    using bonded_GetNbrAtom[OF b1(2)] bonded_GetNbrAtom[OF b2'] by simp
  ultimately show ?thesis unfolding IsOneThree_def list_ex_iff by blast
qed

lemma SetupVDW_mem:
  "SetupVDW ff mol p = Some zs \<Longrightarrow> v \<in> set zs
     \<Longrightarrow> \<not> IsConnected mol (vdw_a v) (vdw_b v) \<and> \<not> IsOneThree mol (vdw_a v) (vdw_b v)"
  by (auto simp: SetupVDW_def Let_def split: prod.splits Option.bind_splits if_splits)

lemma SetupEle_mem:
  "SetupEle ff mol p = Some zs \<Longrightarrow> e \<in> set zs
     \<Longrightarrow> \<not> IsConnected mol (ele_a e) (ele_b e) \<and> \<not> IsOneThree mol (ele_a e) (ele_b e)"
  by (auto simp: SetupEle_def Let_def split: prod.splits Option.bind_splits if_splits)

text \<open>
  C5: after \<^verbatim>\<open>SetupCalculations\<close> and \<^verbatim>\<open>SetupElectrostatics\<close>, no record of the van der
  Waals list and no record of the electrostatic list joins two atoms that are bonded (1-2)
  or bonded to a common atom (1-3).
\<close>

theorem nonbonded_lists_exclude_12_13:
  assumes "SetupCalculations ff mol t0 = Some (r, ff1)"
    and "SetupElectrostatics ff1 mol = Some (r', ff2)"
  shows "(v \<in> set (vdwcalculations ff2)
            \<longrightarrow> \<not> bonded mol (vdw_a v) (vdw_b v) \<and> \<not> one_three mol (vdw_a v) (vdw_b v))
         \<and> (e \<in> set (electrostaticcalculations ff2)
            \<longrightarrow> \<not> bonded mol (ele_a e) (ele_b e) \<and> \<not> one_three mol (ele_a e) (ele_b e))"
proof (intro conjI impI)
  from assms(1) obtain vs where vs: "collect (SetupVDW ff mol) (pairs mol) = Some vs"
    and v1: "vdwcalculations ff1 = vs"
    by (auto simp: SetupCalculations_Some)
  from assms(2) obtain es where es: "collect (SetupEle ff1 mol) (pairs mol) = Some es"
    and ff2: "ff2 = ff1\<lparr>electrostaticcalculations := es\<rparr>"
    by (auto simp: SetupElectrostatics_Some)
  {
    assume "v \<in> set (vdwcalculations ff2)"
    with ff2 v1 have "v \<in> set vs" by simp
    from collect_mem[OF vs this] obtain p zs where "SetupVDW ff mol p = Some zs" "v \<in> set zs"
      by blast
    from SetupVDW_mem[OF this]
    have n: "\<not> IsConnected mol (vdw_a v) (vdw_b v)" "\<not> IsOneThree mol (vdw_a v) (vdw_b v)"
      by simp_all
    from n(1) show "\<not> bonded mol (vdw_a v) (vdw_b v)" using bonded_IsConnected by blast
    from n(2) show "\<not> one_three mol (vdw_a v) (vdw_b v)" using one_three_IsOneThree by blast
  }
  {
    assume "e \<in> set (electrostaticcalculations ff2)"
    with ff2 have "e \<in> set es" by simp
    from collect_mem[OF es this] obtain p zs where "SetupEle ff1 mol p = Some zs" "e \<in> set zs"
      by blast
    from SetupEle_mem[OF this]
    have n: "\<not> IsConnected mol (ele_a e) (ele_b e)" "\<not> IsOneThree mol (ele_a e) (ele_b e)"
      by simp_all
    from n(1) show "\<not> bonded mol (ele_a e) (ele_b e)" using bonded_IsConnected by blast
    from n(2) show "\<not> one_three mol (ele_a e) (ele_b e)" using one_three_IsOneThree by blast
  }
qed

theorem nonbonded_lists_exclude_12_13_witness:
  "map_option (\<lambda>(r, ff1). map (\<lambda>r. (vdw_a r, vdw_b r)) (vdwcalculations ff1))
       (SetupCalculations uff0 chain4 (0, 0, 0)) = Some [(1, 4)]
   \<and> map_option (\<lambda>(r, ff2). map (\<lambda>r. (ele_a r, ele_b r)) (electrostaticcalculations ff2))
       (SetupElectrostatics uff0 chain4) = Some [(1, 4)]
   \<and> \<not> bonded chain4 1 4 \<and> \<not> one_three chain4 1 4"
proof -
  obtain ff1 where s1: "SetupCalculations uff0 chain4 (0, 0, 0) = Some (True, ff1)"
    and v: "map (\<lambda>r. (vdw_a r, vdw_b r)) (vdwcalculations ff1) = [(1, 4)]"
    and g: "HasGroups ff1 = HasGroups uff0" "interGroup ff1 = interGroup uff0"
      "interGroups ff1 = interGroups uff0"
    by atomize_elim (rule chain_setup)
  from chain_ele obtain es where es: "collect (SetupEle uff0 chain4) (pairs chain4) = Some es"
    and e: "map (\<lambda>r. (ele_a r, ele_b r)) es = [(1, 4)]" by auto
  have s2: "SetupElectrostatics ff1 chain4 = Some (True, ff1\<lparr>electrostaticcalculations := es\<rparr>)"
    using es by (simp add: SetupElectrostatics_def SetupEle_cong[OF g])
  have s0: "SetupElectrostatics uff0 chain4 = Some (True, uff0\<lparr>electrostaticcalculations := es\<rparr>)"
    using es by (simp add: SetupElectrostatics_def)
  from v obtain v0 where v0: "vdwcalculations ff1 = [v0]" "vdw_a v0 = 1" "vdw_b v0 = 4" by auto
  from e obtain e0 where e0: "es = [e0]" "ele_a e0 = 1" "ele_b e0 = 4" by auto
  from nonbonded_lists_exclude_12_13[OF s1 s2, of v0 e0] v0 e0
  have "\<not> bonded chain4 1 4 \<and> \<not> one_three chain4 1 4" by simp
  with s1 v s0 e show ?thesis by simp
qed

section \<open>Torsions of two sp3 centres\<close>

text \<open>
  C6: a torsion record built for two central atoms of coordination 3, neither of them a
  chalcogen, has \<^verbatim>\<open>phi0 = 60\<close>, \<^verbatim>\<open>n = 3\<close> and the constant \<open>V\<close> computed from the two
  barrier parameters (half of \<^verbatim>\<open>KCAL_TO_KJ\<close> times the parameter itself when both atoms
  carry the same one, up to its sign). Its energy is 0 at a torsion angle of 60 degrees,
  which is a minimum, and \<open>2 V\<close> at 0 degrees.
\<close>

theorem torsion_sp3_sp3:
  assumes "SetupTorsion ff mol (i0, i1, i2, i3) old = Some (new, recs)"
    and "i \<in> set recs"
    and "GetAtom mol (i1 + 1) = Some atomB"
    and "GetAtom mol (i2 + 1) = Some atomC"
    and "GetParameterUFF (Type atomB) (ffparams ff) = Some parameterB"
    and "GetParameterUFF (Type atomC) (ffparams ff) = Some parameterC"
    and "ipar0 parameterB = 3" and "ipar0 parameterC = 3"
    and "\<not> chalcogen (AtomicNum atomB)" and "\<not> chalcogen (AtomicNum atomC)"
  shows "new = (60, 3, tor_V i)
         \<and> tor_n i = 3
         \<and> tor_cosNPhi0 i = cos (3 * DEG_TO_RAD * 60)
         \<and> (dpar6 parameterB = dpar6 parameterC
              \<longrightarrow> tor_V i = (1 / 2) * KCAL_TO_KJ * \<bar>dpar6 parameterB\<bar>
                  \<and> torsion_energy i (60 * DEG_TO_RAD) = 0
                  \<and> (\<forall>tor. torsion_energy i (60 * DEG_TO_RAD) \<le> torsion_energy i tor)
                  \<and> torsion_energy i 0 = 2 * tor_V i)"
proof -
  have tab: "torsion_table parameterB parameterC (AtomicNum atomB) (AtomicNum atomC) tt old
              = (60, 3, (1 / 2) * KCAL_TO_KJ * sqrt (dpar6 parameterB * dpar6 parameterC))" for tt
    using assms(7-10) by (simp add: torsion_table_def chalcogen_def Let_def)
  from assms(1-6) tab obtain tt where
    new: "new = (60, 3, (1 / 2) * KCAL_TO_KJ * sqrt (dpar6 parameterB * dpar6 parameterC))"
    and i: "i = \<lparr>tor_a = i0 + 1, tor_b = i1 + 1, tor_c = i2 + 1, tor_d = i3 + 1, tor_tt = tt,
                 tor_V = (1 / 2) * KCAL_TO_KJ * sqrt (dpar6 parameterB * dpar6 parameterC),
                 tor_n = 3, tor_cosNPhi0 = cos (real_of_int 3 * DEG_TO_RAD * 60)\<rparr>"
    by (auto simp: SetupTorsion_def Let_def split: Option.bind_splits if_splits)
  have c: "cos (3 * DEG_TO_RAD * 60) = - 1" by (simp add: DEG_TO_RAD_def)
  have e60: "torsion_energy i (60 * DEG_TO_RAD) = 0"
    by (simp add: i torsion_energy_def DEG_TO_RAD_def)
  have e0: "torsion_energy i 0 = 2 * tor_V i"
    by (simp add: i torsion_energy_def DEG_TO_RAD_def)
  have pos: "0 \<le> 1 + cos x" for x :: real
    using cos_ge_minus_one[of x] by linarith
  {
    assume "dpar6 parameterB = dpar6 parameterC"
    then have V: "tor_V i = (1 / 2) * KCAL_TO_KJ * \<bar>dpar6 parameterB\<bar>"
      by (simp add: i)
    then have "0 \<le> tor_V i" by (simp add: KCAL_TO_KJ_def)
    then have "0 \<le> torsion_energy i tor" for tor
      using pos[of "tor * 3"] by (simp add: i torsion_energy_def DEG_TO_RAD_def)
    with V e60 e0 have "tor_V i = (1 / 2) * KCAL_TO_KJ * \<bar>dpar6 parameterB\<bar>
                  \<and> torsion_energy i (60 * DEG_TO_RAD) = 0
                  \<and> (\<forall>tor. torsion_energy i (60 * DEG_TO_RAD) \<le> torsion_energy i tor)
                  \<and> torsion_energy i 0 = 2 * tor_V i"
      by simp
  }
  then have p4: "dpar6 parameterB = dpar6 parameterC
              \<longrightarrow> tor_V i = (1 / 2) * KCAL_TO_KJ * \<bar>dpar6 parameterB\<bar>
                  \<and> torsion_energy i (60 * DEG_TO_RAD) = 0
                  \<and> (\<forall>tor. torsion_energy i (60 * DEG_TO_RAD) \<le> torsion_energy i tor)
                  \<and> torsion_energy i 0 = 2 * tor_V i"
    by blast
  have p1: "new = (60, 3, tor_V i)" by (simp add: new i)
  have p2: "tor_n i = 3" by (simp add: i)
  have p3: "tor_cosNPhi0 i = cos (3 * DEG_TO_RAD * 60)" by (simp add: i)
  from p1 p2 p3 p4 show ?thesis by blast
qed

theorem torsion_sp3_sp3_witness:
  "map_option
     (\<lambda>(new, recs). (new, map tor_n recs, map (\<lambda>i. torsion_energy i (60 * DEG_TO_RAD)) recs,
                      map (\<lambda>i. torsion_energy i 0 = 2 * tor_V i) recs))
     (SetupTorsion uff0 chain4 (0, 1, 2, 3) (0, 0, 0))
   = Some ((60, 3, (1 / 2) * KCAL_TO_KJ * (2119 / 1000)), [3], [0], [True])"
proof -
  from chain_tor obtain new i where st: "SetupTorsion uff0 chain4 (0, 1, 2, 3) (0, 0, 0) = Some (new, [i])"
    by simp
  have a: "GetAtom chain4 (1 + 1) = Some \<lparr>Type = ''C_3'', AtomicNum = 6, PartialCharge = - (1 / 10)\<rparr>"
    "GetAtom chain4 (2 + 1) = Some \<lparr>Type = ''C_3'', AtomicNum = 6, PartialCharge = - (1 / 10)\<rparr>"
    by (simp_all add: mol_defs graph_defs)
  have p: "GetParameterUFF (Type \<lparr>Type = ''C_3'', AtomicNum = 6, PartialCharge = - (1 / 10)\<rparr>)
             (ffparams uff0) = Some C_3_param"
    by (simp add: ff_defs)
  have c: "ipar0 C_3_param = 3"
    "\<not> chalcogen (AtomicNum \<lparr>Type = ''C_3'', AtomicNum = 6, PartialCharge = - (1 / 10)\<rparr>)"
    by (simp_all add: ff_defs chalcogen_def)
  have m: "i \<in> set [i]" by simp
  have d: "\<bar>dpar6 C_3_param\<bar> = 2119 / 1000" by (simp add: C_3_param_def)
  note t = torsion_sp3_sp3[OF st m a p p c(1) c(1) c(2) c(2)]
  from t have "tor_V i = (1 / 2) * KCAL_TO_KJ * \<bar>dpar6 C_3_param\<bar>" by blast
  then have V: "tor_V i = (1 / 2) * KCAL_TO_KJ * (2119 / 1000)" by (simp only: d)
  from t have "new = (60, 3, tor_V i)" "tor_n i = 3"
    "torsion_energy i (60 * DEG_TO_RAD) = 0" "torsion_energy i 0 = 2 * tor_V i"
    by blast+
  with st V show ?thesis by simp
qed

section \<open>Angles that are not finite\<close>

lemma accumulate_sum:
  "list_all2 (\<lambda>i e. f i = Some e) xs es \<Longrightarrow> accumulate f xs energy = Some (energy + sum_list es)"
proof (induction xs arbitrary: es energy)
  case Nil
  then show ?case by simp
next
  case (Cons x xs)
  from Cons.prems obtain e es' where es: "es = e # es'" and e: "f x = Some e"
    and rest: "list_all2 (\<lambda>i e. f i = Some e) xs es'"
    by (auto simp: list_all2_Cons1)
  from Cons.IH[OF rest, of "energy + e"] e es show ?case by simp
qed

text \<open>
  C7: when the angle that an energy term computes for a record is not finite, the energy
  of the record is the energy at a fixed value: 0 in \<^verbatim>\<open>E_Angle\<close> and \<^verbatim>\<open>E_OOP\<close>, and
  \<^verbatim>\<open>1.0e-3\<close> in \<^verbatim>\<open>E_Torsion\<close> (set before the conversion to radians in the variant with
  gradients), with and without gradients. The energy that each of the three terms returns
  is the sum of these energies of its records, a real number.
\<close>

theorem nonfinite_angles_fallback:
  assumes "pos_at positions (angle_a ia) = Some pa"
    and "pos_at positions (angle_b ia) = Some pb"
    and "pos_at positions (angle_c ia) = Some pc"
    and "pos_at positions (tor_a it) = Some qa"
    and "pos_at positions (tor_b it) = Some qb"
    and "pos_at positions (tor_c it) = Some qc"
    and "pos_at positions (tor_d it) = Some qd"
    and "pos_at positions (oop_a io) = Some ra"
    and "pos_at positions (oop_b io) = Some rb"
    and "pos_at positions (oop_c io) = Some rc"
    and "pos_at positions (oop_d io) = Some rd"
  shows "(\<not> isfinite (angle_raw vm gradients pa pb pc)
            \<longrightarrow> angle_e vm gradients positions ia = Some (angle_energy ia 0))
         \<and> (\<not> isfinite (torsion_raw vm gradients qa qb qc qd)
            \<longrightarrow> torsion_e vm gradients positions it
                  = Some (torsion_energy it
                            (if gradients then (1 / 1000) * DEG_TO_RAD else 1 / 1000)))
         \<and> (\<not> isfinite (oop_raw vm gradients ra rb rc rd)
            \<longrightarrow> oop_e vm gradients positions io = Some (oop_energy io 0))
         \<and> (list_all2 (\<lambda>i e. angle_e vm gradients positions i = Some e) (anglecalculations ff) as
            \<longrightarrow> E_Angle vm ff positions gradients = Some (sum_list as))
         \<and> (list_all2 (\<lambda>i e. torsion_e vm gradients positions i = Some e)
               (torsioncalculations ff) ts
            \<longrightarrow> E_Torsion vm ff positions gradients = Some (sum_list ts))
         \<and> (list_all2 (\<lambda>i e. oop_e vm gradients positions i = Some e) (oopcalculations ff) os
            \<longrightarrow> E_OOP vm ff positions gradients = Some (sum_list os))"
proof -
  have nf: "\<not> isfinite x \<Longrightarrow> x = NonFinite" for x by (cases x) simp_all
  have 1: "\<not> isfinite (angle_raw vm gradients pa pb pc)
            \<longrightarrow> angle_e vm gradients positions ia = Some (angle_energy ia 0)"
    using assms(1-3) by (auto simp: angle_e_def angle_theta_def dest!: nf)
  have 2: "\<not> isfinite (torsion_raw vm gradients qa qb qc qd)
            \<longrightarrow> torsion_e vm gradients positions it
                  = Some (torsion_energy it
                            (if gradients then (1 / 1000) * DEG_TO_RAD else 1 / 1000))"
    using assms(4-7) by (auto simp: torsion_e_def torsion_tor_def Let_def dest!: nf)
  have 3: "\<not> isfinite (oop_raw vm gradients ra rb rc rd)
            \<longrightarrow> oop_e vm gradients positions io = Some (oop_energy io 0)"
    using assms(8-11) by (auto simp: oop_e_def oop_angle_def dest!: nf)
  have 4: "list_all2 (\<lambda>i e. angle_e vm gradients positions i = Some e) (anglecalculations ff) as
            \<longrightarrow> E_Angle vm ff positions gradients = Some (sum_list as)"
    using accumulate_sum[of "angle_e vm gradients positions" "anglecalculations ff" as 0]
    by (simp add: E_Angle_def)
  have 5: "list_all2 (\<lambda>i e. torsion_e vm gradients positions i = Some e)
               (torsioncalculations ff) ts
            \<longrightarrow> E_Torsion vm ff positions gradients = Some (sum_list ts)"
    using accumulate_sum[of "torsion_e vm gradients positions" "torsioncalculations ff" ts 0]
    by (simp add: E_Torsion_def)
  have 6: "list_all2 (\<lambda>i e. oop_e vm gradients positions i = Some e) (oopcalculations ff) os
            \<longrightarrow> E_OOP vm ff positions gradients = Some (sum_list os)"
    using accumulate_sum[of "oop_e vm gradients positions" "oopcalculations ff" os 0]
    by (simp add: E_OOP_def)
  from 1 2 3 4 5 6 show ?thesis by blast
qed

lemma example_positions:
  "pos_at square_positions 1 = Some (Vec 1 0 0)" "pos_at square_positions 2 = Some (Vec 0 0 0)"
  "pos_at square_positions 3 = Some (Vec 0 1 0)" "pos_at square_positions 4 = Some (Vec 1 1 0)"
  by (simp_all add: pos_at_def square_positions_def)

lemma square_dot: "dotAbbcBccd (Vec 1 0 0) (Vec 0 0 0) (Vec 0 1 0) (Vec 1 1 0) = 1"
  by (simp add: dotAbbcBccd_def Let_def)

theorem nonfinite_angles_fallback_witness:
  "\<not> IsNearZero_default (dotAbbcBccd (Vec 1 0 0) (Vec 0 0 0) (Vec 0 1 0) (Vec 1 1 0))
   \<and> angle_e vm_nonfinite False square_positions example_angle = Some (angle_energy example_angle 0)
   \<and> angle_e vm_nonfinite True square_positions example_angle = Some (angle_energy example_angle 0)
   \<and> torsion_e vm_nonfinite False square_positions example_torsion
       = Some (torsion_energy example_torsion (1 / 1000))
   \<and> torsion_e vm_nonfinite True square_positions example_torsion
       = Some (torsion_energy example_torsion ((1 / 1000) * DEG_TO_RAD))
   \<and> oop_e vm_nonfinite False square_positions example_oop = Some (oop_energy example_oop 0)
   \<and> oop_e vm_nonfinite True square_positions example_oop = Some (oop_energy example_oop 0)
   \<and> E_Angle vm_nonfinite uff_lists square_positions False = Some (angle_energy example_angle 0)
   \<and> E_Torsion vm_nonfinite uff_lists square_positions False
       = Some (torsion_energy example_torsion (1 / 1000))
   \<and> E_OOP vm_nonfinite uff_lists square_positions False = Some (oop_energy example_oop 0)"
proof -
  have p: "pos_at square_positions (angle_a example_angle) = Some (Vec 1 0 0)"
    "pos_at square_positions (angle_b example_angle) = Some (Vec 0 0 0)"
    "pos_at square_positions (angle_c example_angle) = Some (Vec 0 1 0)"
    "pos_at square_positions (tor_a example_torsion) = Some (Vec 1 0 0)"
    "pos_at square_positions (tor_b example_torsion) = Some (Vec 0 0 0)"
    "pos_at square_positions (tor_c example_torsion) = Some (Vec 0 1 0)"
    "pos_at square_positions (tor_d example_torsion) = Some (Vec 1 1 0)"
    "pos_at square_positions (oop_a example_oop) = Some (Vec 1 0 0)"
    "pos_at square_positions (oop_b example_oop) = Some (Vec 0 0 0)"
    "pos_at square_positions (oop_c example_oop) = Some (Vec 0 1 0)"
    "pos_at square_positions (oop_d example_oop) = Some (Vec 1 1 0)"
    using example_positions
    by (simp_all add: example_angle_def example_torsion_def example_oop_def)
  have raw: "\<not> isfinite (angle_raw vm_nonfinite g (Vec 1 0 0) (Vec 0 0 0) (Vec 0 1 0))"
    "\<not> isfinite (torsion_raw vm_nonfinite g (Vec 1 0 0) (Vec 0 0 0) (Vec 0 1 0) (Vec 1 1 0))"
    "\<not> isfinite (oop_raw vm_nonfinite g (Vec 1 0 0) (Vec 0 0 0) (Vec 0 1 0) (Vec 1 1 0))" for g
    by (simp_all add: angle_raw_def torsion_raw_def oop_raw_def vm_nonfinite_def Let_def)
  have lists: "anglecalculations uff_lists = [example_angle]"
    "torsioncalculations uff_lists = [example_torsion]"
    "oopcalculations uff_lists = [example_oop]"
    by (simp_all add: uff_lists_def)
  note t = nonfinite_angles_fallback[OF p, where vm = vm_nonfinite and ff = uff_lists]
  note f = t[where gradients = False and as = "[angle_energy example_angle 0]"
      and ts = "[torsion_energy example_torsion (1 / 1000)]"
      and os = "[oop_energy example_oop 0]"]
  note g = t[where gradients = True and as = "[]" and ts = "[]" and os = "[]"]
  from f g raw[of False] raw[of True] lists square_dot
  show ?thesis by (simp add: IsNearZero_default_def IsNearZero_def)
qed

section \<open>The direction of conjugate gradients\<close>

text \<open>
  C8 at a failing input: two atoms with the gradients (2, 0, 0) and (0, 3, 0), the stored
  vectors (1, 0, 0) and (0, 1, 0), first pass (step count 1, not a multiple of 2). The
  code computes \<open>beta\<close> inside the loop over the atoms, from the gradient and the stored
  vector of one atom: 4 for the first atom and 9 for the second, which gives the directions
  (6, 0, 0) and (0, 12, 0). The Fletcher-Reeves \<open>beta\<close> of the claim is one quotient of the
  squared norms of the whole gradients, 13 / 2, which gives (8.5, 0, 0) and (0, 9.5, 0).
\<close>

theorem cg_direction_not_Fletcher_Reeves:
  "cg_search_direction (cg_private 0) cg_function
     = Inr [FiniteV (Vec 6 0 0), FiniteV (Vec 0 12 0)]
   \<and> Fletcher_Reeves_direction (m_gradients cg_function) (d_grad1 (cg_private 0))
       (d_grad1 (cg_private 0)) = [Vec (17 / 2) 0 0, Vec 0 (19 / 2) 0]"
  by (simp add: cg_search_direction_def cg_direction_def cg_private_def cg_function_def
        cg_atom_def Let_def Fletcher_Reeves_direction_def)

text \<open>
  The vector stored for the next pass is the gradient of the start of the pass, not the
  direction that was searched, whatever the line search and the outcome of the pass.
\<close>

lemma ConjugateGradients_step_stores_gradient:
  "ConjugateGradients_step E G d fn = Inr (continue, d', fn') \<Longrightarrow> d_grad1 d' = m_gradients fn"
  by (auto simp: ConjugateGradients_step_def Let_def split: sum.splits if_splits prod.splits)

text \<open>
  For an atom whose stored vector is zero the direction is not finite, and the line search
  does not move the atom.
\<close>

lemma cg_zero_stored_not_finite:
  "cstep mod natoms \<noteq> 0 \<Longrightarrow> cg_atom cstep natoms gradient (Vec 0 0 0) = NonFiniteV"
  by (simp add: cg_atom_def)

text \<open>
  When the step count is a multiple of the number of atoms, the direction of every atom
  is its gradient.
\<close>

lemma cg_reset_at_multiple:
  assumes "cg_search_direction d fn = Inr dir"
    and "idx < length (m_positions fn)"
    and "Suc (d_cstep d) mod length (m_positions fn) = 0"
  shows "dir ! idx = FiniteV (m_gradients fn ! idx)"
proof -
  let ?n = "length (m_positions fn)"
  from assms(1) have len: "?n \<le> length (m_gradients fn)" "?n \<le> length (d_grad1 d)"
    and dir: "dir = map2 (cg_atom (Suc (d_cstep d)) ?n) (take ?n (m_gradients fn))
                      (take ?n (d_grad1 d)) @ map FiniteV (drop ?n (d_grad1 d))"
    by (auto simp: cg_search_direction_def cg_direction_def split: if_splits)
  from len assms(2)
  have "dir ! idx = cg_atom (Suc (d_cstep d)) ?n (m_gradients fn ! idx) (d_grad1 d ! idx)"
    by (simp add: dir nth_append)
  with assms(3) show ?thesis by (simp add: cg_atom_def)
qed

section \<open>Energy and the electrostatic list\<close>

text \<open>
  C9: the value of \<^verbatim>\<open>Energy\<close>, with or without gradients, does not depend on the
  electrostatic calculation list; it is the same before and after
  \<^verbatim>\<open>SetupElectrostatics\<close>.
\<close>

theorem Energy_ignores_electrostatics:
  "Energy vm (ff\<lparr>electrostaticcalculations := es\<rparr>) positions gradients
     = Energy vm ff positions gradients
   \<and> (SetupElectrostatics ff mol = Some (r, ff')
        \<longrightarrow> Energy vm ff' positions gradients = Energy vm ff positions gradients)"
proof -
  have 1: "Energy vm (ff\<lparr>electrostaticcalculations := es\<rparr>) positions gradients
     = Energy vm ff positions gradients" for es
  proof -
    have "vdw_e vm (ff\<lparr>electrostaticcalculations := es\<rparr>) = vdw_e vm ff"
      by (intro ext) (simp add: vdw_e_def)
    then show ?thesis
      by (simp add: Energy_def E_Bond_def E_Angle_def E_Torsion_def E_OOP_def E_VDW_def)
  qed
  show ?thesis by (auto simp: 1 SetupElectrostatics_Some)
qed

theorem Energy_ignores_electrostatics_witness:
  "map_option (\<lambda>(r, ff2). map (\<lambda>r. (ele_a r, ele_b r)) (electrostaticcalculations ff2))
       (SetupElectrostatics uff0 chain4) = Some [(1, 4)]
   \<and> Energy vm_nonfinite (snd (the (SetupElectrostatics uff0 chain4))) [] False
       = Energy vm_nonfinite uff0 [] False"
proof -
  from chain_ele obtain es where es: "collect (SetupEle uff0 chain4) (pairs chain4) = Some es"
    and e: "map (\<lambda>r. (ele_a r, ele_b r)) es = [(1, 4)]" by auto
  have s0: "SetupElectrostatics uff0 chain4 = Some (True, uff0\<lparr>electrostaticcalculations := es\<rparr>)"
    using es by (simp add: SetupElectrostatics_def)
  from Energy_ignores_electrostatics[where vm = vm_nonfinite and ff = uff0 and es = es
      and positions = "[]" and gradients = False and mol = chain4 and r = True
      and ff' = "uff0\<lparr>electrostaticcalculations := es\<rparr>"] s0 e
  show ?thesis by simp
qed

end
